theory Spec2Isabelle
  imports Complex_Main "HOL-Library.Log_Nat" "HOL-Library.Monad_Syntax"
begin

section \<open>JavaScript numbers\<close>

text \<open>
  A JavaScript \<open>number\<close> is an IEEE 754 binary64 value: a finite value (a rational, with
  \<open>Fin 0\<close> for \<open>+0\<close>), the negative zero, the two infinities, or NaN. Arithmetic
  computes the exact rational result and rounds it to the nearest binary64 value, ties to
  even (\<open>fl\<close>), overflowing to an infinity and underflowing through the subnormals to a
  signed zero.
\<close>

datatype number = Fin rat | NegZero | PosInf | NegInf | NaN

definition pow2 :: "int \<Rightarrow> rat" where
  "pow2 e = (if 0 \<le> e then 2 ^ nat e else 1 / 2 ^ nat (- e))"

text \<open>\<open>ilog2 r\<close> is the binary exponent of a positive rational: \<open>2 ^ ilog2 r \<le> r < 2 ^ (ilog2 r + 1)\<close>.\<close>

definition ilog2 :: "rat \<Rightarrow> int" where
  "ilog2 r = (let (n, d) = quotient_of r; k = bitlen n - bitlen d
              in if r < pow2 k then k - 1 else k)"

text \<open>Rounding to the nearest integer, ties to the even one.\<close>

definition rne :: "rat \<Rightarrow> int" where
  "rne x = (let f = \<lfloor>x\<rfloor>; d = x - of_int f
            in if d < 1 / 2 then f else if 1 / 2 < d then f + 1
               else if even f then f else f + 1)"

text \<open>
  The binary64 magnitude nearest to a positive rational: 53 significant bits, the exponent
  not below \<open>-1022\<close> (subnormals share the quantum \<open>2 ^ -1074\<close>); \<open>None\<close> when the
  rounded magnitude reaches \<open>2 ^ 1024\<close> (overflow).
\<close>

definition round_mag :: "rat \<Rightarrow> rat option" where
  "round_mag r = (let e = max (ilog2 r) (- 1022); q = pow2 (e - 52);
                      v = of_int (rne (r / q)) * q
                  in if v < pow2 1024 then Some v else None)"

definition fl :: "rat \<Rightarrow> number" where
  "fl r = (if r = 0 then Fin 0
           else if 0 < r then (case round_mag r of Some v \<Rightarrow> Fin v | None \<Rightarrow> PosInf)
           else (case round_mag (- r) of
                   Some v \<Rightarrow> if v = 0 then NegZero else Fin (- v)
                 | None \<Rightarrow> NegInf))"

fun is_neg :: "number \<Rightarrow> bool" where
  "is_neg (Fin r) = (r < 0)"
| "is_neg NegZero = True"
| "is_neg PosInf = False"
| "is_neg NegInf = True"
| "is_neg NaN = False"

fun is_zero :: "number \<Rightarrow> bool" where
  "is_zero (Fin r) = (r = 0)"
| "is_zero NegZero = True"
| "is_zero x = False"

fun is_inf :: "number \<Rightarrow> bool" where
  "is_inf PosInf = True"
| "is_inf NegInf = True"
| "is_inf x = False"

definition zero_s :: "bool \<Rightarrow> number" where
  "zero_s neg = (if neg then NegZero else Fin 0)"

definition inf_s :: "bool \<Rightarrow> number" where
  "inf_s neg = (if neg then NegInf else PosInf)"

text \<open>The mathematical value of a finite number (both zeros are 0).\<close>

fun rat_of :: "number \<Rightarrow> rat" where
  "rat_of (Fin r) = r"
| "rat_of x = 0"

fun js_neg :: "number \<Rightarrow> number" where
  "js_neg (Fin r) = (if r = 0 then NegZero else Fin (- r))"
| "js_neg NegZero = Fin 0"
| "js_neg PosInf = NegInf"
| "js_neg NegInf = PosInf"
| "js_neg NaN = NaN"

text \<open>\<open>x + y\<close>: an exact zero sum is \<open>+0\<close> unless both operands are \<open>-0\<close>.\<close>

definition js_add :: "number \<Rightarrow> number \<Rightarrow> number" where
  "js_add x y =
     (if x = NaN \<or> y = NaN then NaN
      else if is_inf x \<and> is_inf y then (if x = y then x else NaN)
      else if is_inf x then x
      else if is_inf y then y
      else if x = NegZero \<and> y = NegZero then NegZero
      else fl (rat_of x + rat_of y))"

text \<open>\<open>x - y\<close> is \<open>x + (-y)\<close>.\<close>

definition js_sub :: "number \<Rightarrow> number \<Rightarrow> number" where
  "js_sub x y = js_add x (js_neg y)"

definition js_mul :: "number \<Rightarrow> number \<Rightarrow> number" where
  "js_mul x y =
     (let neg = (is_neg x \<noteq> is_neg y) in
      if x = NaN \<or> y = NaN then NaN
      else if is_inf x \<or> is_inf y then
        (if is_zero x \<or> is_zero y then NaN else inf_s neg)
      else if is_zero x \<or> is_zero y then zero_s neg
      else fl (rat_of x * rat_of y))"

definition js_div :: "number \<Rightarrow> number \<Rightarrow> number" where
  "js_div x y =
     (let neg = (is_neg x \<noteq> is_neg y) in
      if x = NaN \<or> y = NaN then NaN
      else if is_inf x then (if is_inf y then NaN else inf_s neg)
      else if is_inf y then zero_s neg
      else if is_zero y then (if is_zero x then NaN else inf_s neg)
      else if is_zero x then zero_s neg
      else fl (rat_of x / rat_of y))"

text \<open>The comparisons \<open>x < y\<close> and \<open>x == y\<close> of the language: false on NaN, the zeros equal.\<close>

fun js_lt :: "number \<Rightarrow> number \<Rightarrow> bool" where
  "js_lt NaN y = False"
| "js_lt x NaN = False"
| "js_lt PosInf y = False"
| "js_lt x PosInf = True"
| "js_lt x NegInf = False"
| "js_lt NegInf y = True"
| "js_lt x y = (rat_of x < rat_of y)"

fun js_eq :: "number \<Rightarrow> number \<Rightarrow> bool" where
  "js_eq NaN y = False"
| "js_eq x NaN = False"
| "js_eq PosInf y = (y = PosInf)"
| "js_eq x PosInf = False"
| "js_eq NegInf y = (y = NegInf)"
| "js_eq x NegInf = False"
| "js_eq x y = (rat_of x = rat_of y)"

text \<open>\<open>x <= y\<close>: less or equal, false on NaN.\<close>

definition js_le :: "number \<Rightarrow> number \<Rightarrow> bool" where
  "js_le x y = (js_lt x y \<or> js_eq x y)"

definition js_finite :: "number \<Rightarrow> bool" where
  "js_finite x = (x \<noteq> NaN \<and> \<not> is_inf x)"

subsection \<open>\<open>toFixed\<close> and \<open>Number\<close>\<close>

text \<open>
  \<open>x.toFixed(f)\<close> returns a string. Its two shapes are kept apart: \<open>Digits neg n f\<close> is
  the decimal numeral of the integer \<open>n\<close> with the point before its last \<open>f\<close> digits,
  preceded by a minus sign when \<open>neg\<close>; \<open>Verbatim x\<close> is the language's own printing of
  \<open>x\<close>, used for NaN, the infinities and magnitudes from \<open>10 ^ 21\<close> on. In the first
  shape \<open>n\<close> is the integer for which \<open>n / 10 ^ f\<close> is nearest to the magnitude of
  \<open>x\<close>, the larger one of two; the sign is printed when \<open>x < 0\<close>, so \<open>-0\<close> prints as \<open>0\<close>
  and a small negative value prints as \<open>-0.00\<close>.
\<close>

datatype fixed_string = Digits bool nat nat | Verbatim number

fun toFixed :: "nat \<Rightarrow> number \<Rightarrow> fixed_string" where
  "toFixed f (Fin r) =
     (if 10 ^ 21 \<le> \<bar>r\<bar> then Verbatim (Fin r)
      else Digits (r < 0) (nat \<lfloor>\<bar>r\<bar> * 10 ^ f + 1 / 2\<rfloor>) f)"
| "toFixed f NegZero = Digits False 0 f"
| "toFixed f x = Verbatim x"

text \<open>
  \<open>Number(s)\<close> on such a string: the printing of a number reads back as that number; a
  decimal numeral reads as the binary64 value nearest to it, \<open>-0.00\<close> as \<open>-0\<close>.
\<close>

fun Number_of :: "fixed_string \<Rightarrow> number" where
  "Number_of (Verbatim x) = x"
| "Number_of (Digits neg n f) =
     (if n = 0 then zero_s neg
      else fl ((if neg then - 1 else 1) * of_nat n / 10 ^ f))"

text \<open>The number a decimal literal of the program or of the specification denotes.\<close>

definition literal :: "rat \<Rightarrow> number" where
  "literal r = fl r"

section \<open>The extraction service: \<open>firaApi\<close>\<close>

text \<open>
  \<open>FiraDataDto\<close> as it arrives from \<open>JSON.parse\<close>: every property may be absent from
  the object (\<open>None\<close>, read as \<open>undefined\<close>); a property that is present has its declared
  type.
\<close>

record FiraDataDto =
  dto_id :: "number option"
  amount :: "number option"
  currency :: "string option"
  inrAmount :: "number option"
  fxRateSkydo :: "number option"
  calculatedExchangeRate :: "number option"
  transactionSkydoFee :: "number option"
  skydoFiraFee :: "number option"
  skydoWireFee :: "number option"
  platformFiraFee :: "number option"
  platformWireFee :: "number option"
  platformTransactionFee :: "number option"
  finalInrAmount :: "number option"
  finalInrAmountSkydo :: "number option"
  valueDate :: "string option"

record FiraProcessingResult =
  success :: bool
  message :: "string option"
  firaData :: "FiraDataDto option"
  processingTimeMs :: "number option"
  errors :: "string list option"

datatype PaymentMethod = BANK | PAYONEER | WISE | PAYPAL | OTHERS

fun PaymentMethod_value :: "PaymentMethod \<Rightarrow> string" where
  "PaymentMethod_value BANK = ''BANK''"
| "PaymentMethod_value PAYONEER = ''PAYONEER''"
| "PaymentMethod_value WISE = ''WISE''"
| "PaymentMethod_value PAYPAL = ''PAYPAL''"
| "PaymentMethod_value OTHERS = ''OTHERS''"

text \<open>
  A thrown value: an \<open>Error\<close> instance (a \<open>TypeError\<close> is one) with its message, or a
  value that is not an \<open>Error\<close>.
\<close>

datatype thrown = Error string | NonError

text \<open>
  What \<open>JSON.parse\<close> makes of the response body: it throws; it returns a falsy value; it
  returns a value whose \<open>success\<close> is not a boolean; or it returns an object with a
  boolean \<open>success\<close>. The parser itself is a parameter of the model.
\<close>

datatype parsed = Unparsable | Falsy | NoBooleanSuccess | Parsed FiraProcessingResult

text \<open>
  What \<open>fetch\<close> and \<open>response.text()\<close> deliver: a rejection, or a response with its
  \<open>ok\<close> flag, its status and its body text.
\<close>

datatype fetch_outcome = Rejected thrown | Response bool nat string

definition digit_char :: "nat \<Rightarrow> char" where
  "digit_char n = ''0123456789'' ! n"

fun string_of_nat :: "nat \<Rightarrow> string" where
  "string_of_nat n =
     (if n < 10 then [digit_char n] else string_of_nat (n div 10) @ [digit_char (n mod 10)])"

declare string_of_nat.simps [simp del]

text \<open>\<open>xs.join(sep)\<close>.\<close>

fun join :: "string \<Rightarrow> string list \<Rightarrow> string" where
  "join sep [] = []"
| "join sep [x] = x"
| "join sep (x # y # ys) = x @ sep @ join sep (y # ys)"

text \<open>\<open>field in firaData\<close> and \<open>firaData[field] !== undefined\<close>.\<close>

definition field_defined :: "FiraDataDto \<Rightarrow> string \<Rightarrow> bool" where
  "field_defined d field =
     (if field = ''id'' then dto_id d \<noteq> None
      else if field = ''amount'' then amount d \<noteq> None
      else if field = ''currency'' then currency d \<noteq> None
      else if field = ''inrAmount'' then inrAmount d \<noteq> None
      else if field = ''fxRateSkydo'' then fxRateSkydo d \<noteq> None
      else if field = ''calculatedExchangeRate'' then calculatedExchangeRate d \<noteq> None
      else if field = ''transactionSkydoFee'' then transactionSkydoFee d \<noteq> None
      else if field = ''skydoFiraFee'' then skydoFiraFee d \<noteq> None
      else if field = ''skydoWireFee'' then skydoWireFee d \<noteq> None
      else if field = ''platformFiraFee'' then platformFiraFee d \<noteq> None
      else if field = ''platformWireFee'' then platformWireFee d \<noteq> None
      else if field = ''platformTransactionFee'' then platformTransactionFee d \<noteq> None
      else if field = ''finalInrAmount'' then finalInrAmount d \<noteq> None
      else if field = ''finalInrAmountSkydo'' then finalInrAmountSkydo d \<noteq> None
      else if field = ''valueDate'' then valueDate d \<noteq> None
      else False)"

definition requiredFields :: "string list" where
  "requiredFields =
     [''amount'', ''currency'', ''inrAmount'', ''fxRateSkydo'',
      ''calculatedExchangeRate'', ''finalInrAmount'', ''finalInrAmountSkydo'']"

definition missingFields :: "FiraDataDto \<Rightarrow> string list" where
  "missingFields d = filter (\<lambda>field. \<not> field_defined d field) requiredFields"

text \<open>The body of the \<open>try\<close> block of \<open>uploadAndProcessFira\<close>, from the response on.\<close>

definition upload_try :: "(string \<Rightarrow> parsed) \<Rightarrow> fetch_outcome \<Rightarrow> thrown + FiraProcessingResult" where
  "upload_try JSON_parse outcome =
     (case outcome of
        Rejected e \<Rightarrow> Inl e
      | Response ok status responseText \<Rightarrow>
          if \<not> ok then
            Inl (Error (''HTTP error! status: '' @ string_of_nat status @ '', message: '' @ responseText))
          else
            (case JSON_parse responseText of
               Unparsable \<Rightarrow> Inl (Error (''Invalid JSON response: '' @ responseText))
             | Falsy \<Rightarrow> Inl (Error ''Invalid response format from server'')
             | NoBooleanSuccess \<Rightarrow> Inl (Error ''Invalid response format from server'')
             | Parsed result \<Rightarrow>
                 if success result then
                   (case firaData result of
                      None \<Rightarrow> Inl (Error ''Server returned success but no data'')
                    | Some d \<Rightarrow>
                        if missingFields d \<noteq> [] then
                          Inl (Error (''Server response missing required fields: '' @ join '', '' (missingFields d)))
                        else Inr result)
                 else Inr result))"

text \<open>The \<open>catch\<close> block rethrows with more context.\<close>

definition uploadAndProcessFira :: "(string \<Rightarrow> parsed) \<Rightarrow> fetch_outcome \<Rightarrow> thrown + FiraProcessingResult" where
  "uploadAndProcessFira JSON_parse outcome =
     (case upload_try JSON_parse outcome of
        Inr result \<Rightarrow> Inr result
      | Inl e \<Rightarrow>
          Inl (Error (''Failed to upload FIRA file: '' @
                      (case e of Error m \<Rightarrow> m | NonError \<Rightarrow> ''Network error''))))"

section \<open>The page: \<open>Index\<close>\<close>

record Charge =
  charge_type :: string
  charge_amount :: number
  isPercentage :: "bool option"

record ProviderBreakdown =
  provider_name :: string
  paymentAmount :: number
  charges :: "Charge list"
  totalOnTransaction :: number
  effectiveCost :: number

record Savings =
  savings_amount :: number
  savings_percentage :: number

record ComparisonRecord =
  currentProvider :: ProviderBreakdown
  skydo :: ProviderBreakdown
  savings :: Savings
  transactionAmount :: number
  originalAmount :: number
  record_currency :: "string option"

text \<open>An absent property read in arithmetic is \<open>undefined\<close>, which converts to NaN.\<close>

fun num :: "number option \<Rightarrow> number" where
  "num None = NaN"
| "num (Some x) = x"

text \<open>
  \<open>firaData.field.toFixed(f)\<close>: on an absent property the method call throws a
  \<open>TypeError\<close> (\<open>None\<close>).
\<close>

fun field_toFixed :: "nat \<Rightarrow> number option \<Rightarrow> fixed_string option" where
  "field_toFixed f None = None"
| "field_toFixed f (Some x) = Some (toFixed f x)"

text \<open>
  The computation of \<open>transformedData\<close> in \<open>handleFileUpload\<close>, in the order of the
  source; \<open>None\<close> when it throws.
\<close>

definition transformedData :: "FiraDataDto \<Rightarrow> ComparisonRecord option" where
  "transformedData d = do {
     let currentProviderEffectiveCost =
       Number_of (toFixed 2 (js_mul (js_div (js_sub (num (inrAmount d)) (num (finalInrAmount d)))
                                              (num (inrAmount d))) (Fin 100)));
     let skydoOriginalInrAmount = js_mul (num (amount d)) (num (fxRateSkydo d));
     let skydoEffectiveCost =
       Number_of (toFixed 2 (js_mul (js_div (js_sub skydoOriginalInrAmount (num (finalInrAmountSkydo d)))
                                              skydoOriginalInrAmount) (Fin 100)));
     cp_payment \<leftarrow> field_toFixed 2 (inrAmount d);
     cp_fx \<leftarrow> field_toFixed 4 (calculatedExchangeRate d);
     cp_wire \<leftarrow> field_toFixed 2 (platformWireFee d);
     cp_fira \<leftarrow> field_toFixed 2 (platformFiraFee d);
     cp_txn \<leftarrow> field_toFixed 2 (platformTransactionFee d);
     let cp_total =
       Number_of (toFixed 2 (js_add (js_add (num (platformWireFee d)) (num (platformFiraFee d)))
                                    (num (platformTransactionFee d))));
     sk_fx \<leftarrow> field_toFixed 4 (fxRateSkydo d);
     sk_wire \<leftarrow> field_toFixed 2 (skydoWireFee d);
     sk_fira \<leftarrow> field_toFixed 2 (skydoFiraFee d);
     sk_txn \<leftarrow> field_toFixed 2 (transactionSkydoFee d);
     let sk_total =
       Number_of (toFixed 2 (js_add (js_add (num (skydoWireFee d)) (num (skydoFiraFee d)))
                                    (num (transactionSkydoFee d))));
     let sv_amount =
       Number_of (toFixed 2 (js_sub (num (finalInrAmountSkydo d)) (num (finalInrAmount d))));
     let sv_percentage =
       Number_of (toFixed 2 (js_mul (js_div (js_sub (num (finalInrAmountSkydo d)) (num (finalInrAmount d)))
                                              (num (finalInrAmount d))) (Fin 100)));
     txn_amount \<leftarrow> field_toFixed 2 (inrAmount d);
     orig_amount \<leftarrow> field_toFixed 2 (amount d);
     Some \<lparr>
       currentProvider = \<lparr>
         provider_name = ''Current Provider'',
         paymentAmount = Number_of cp_payment,
         charges = [
           \<lparr>charge_type = ''FX Rate'', charge_amount = Number_of cp_fx, isPercentage = Some False\<rparr>,
           \<lparr>charge_type = ''Wire Fee (INR)'', charge_amount = Number_of cp_wire, isPercentage = None\<rparr>,
           \<lparr>charge_type = ''FIRA Fee (INR)'', charge_amount = Number_of cp_fira, isPercentage = None\<rparr>,
           \<lparr>charge_type = ''Transaction Fee (INR)'', charge_amount = Number_of cp_txn, isPercentage = None\<rparr>],
         totalOnTransaction = cp_total,
         effectiveCost = currentProviderEffectiveCost\<rparr>,
       skydo = \<lparr>
         provider_name = ''Skydo'',
         paymentAmount = Number_of (toFixed 2 skydoOriginalInrAmount),
         charges = [
           \<lparr>charge_type = ''FX Rate'', charge_amount = Number_of sk_fx, isPercentage = Some False\<rparr>,
           \<lparr>charge_type = ''Wire Fee (INR)'', charge_amount = Number_of sk_wire, isPercentage = None\<rparr>,
           \<lparr>charge_type = ''FIRA Fee (INR)'', charge_amount = Number_of sk_fira, isPercentage = None\<rparr>,
           \<lparr>charge_type = ''Transaction Fee (INR)'', charge_amount = Number_of sk_txn, isPercentage = None\<rparr>],
         totalOnTransaction = sk_total,
         effectiveCost = skydoEffectiveCost\<rparr>,
       savings = \<lparr>savings_amount = sv_amount, savings_percentage = sv_percentage\<rparr>,
       transactionAmount = Number_of txn_amount,
       originalAmount = Number_of orig_amount,
       record_currency = currency d\<rparr>
   }"

text \<open>The message of the \<open>TypeError\<close> of a method call on \<open>undefined\<close>, as V8 words it.\<close>

definition undefined_toFixed :: string where
  "undefined_toFixed = ''Cannot read properties of undefined (reading 'toFixed')''"

text \<open>
  \<open>errorMessage\<close> of the \<open>success: false\<close> branch:
  \<open>result.errors?.length > 0 ? result.errors.join(', ') : result.message || "..."\<close>.
\<close>

definition errorMessage :: "FiraProcessingResult \<Rightarrow> string" where
  "errorMessage result =
     (let fallback = (case message result of
                        None \<Rightarrow> ''Failed to process FIRA document''
                      | Some m \<Rightarrow> if m \<noteq> [] then m else ''Failed to process FIRA document'')
      in case errors result of
           None \<Rightarrow> fallback
         | Some es \<Rightarrow> if 0 < length es then join '', '' es else fallback)"

text \<open>The \<open>try\<close> block of \<open>handleFileUpload\<close>, from the awaited call on.\<close>

definition handle_try :: "thrown + FiraProcessingResult \<Rightarrow> thrown + ComparisonRecord" where
  "handle_try awaited =
     (case awaited of
        Inl e \<Rightarrow> Inl e
      | Inr result \<Rightarrow>
          if \<not> success result then Inl (Error (errorMessage result))
          else (case firaData result of
                  None \<Rightarrow> Inl (Error ''No data received from server'')
                | Some d \<Rightarrow>
                    (case transformedData d of
                       None \<Rightarrow> Inl (Error undefined_toFixed)
                     | Some t \<Rightarrow> Inr t)))"

record File =
  file_name :: string
  file_type :: string

record toast =
  title :: string
  description :: string
  destructive :: bool

record Index_state =
  page_uploadedFile :: "File option"
  analysisData :: "ComparisonRecord option"
  isAnalyzing :: bool
  toasts :: "toast list"

text \<open>\<open>handleFileUpload\<close> up to the \<open>await\<close>: the two state updates before the call.\<close>

definition handleFileUpload_begin :: "File \<Rightarrow> Index_state \<Rightarrow> Index_state" where
  "handleFileUpload_begin file s = s\<lparr>page_uploadedFile := Some file, isAnalyzing := True\<rparr>"

text \<open>
  \<open>handleFileUpload\<close> from the \<open>await\<close> on: the \<open>try\<close> block, the \<open>catch\<close> block and
  the \<open>finally\<close> block.
\<close>

definition handleFileUpload_resume :: "thrown + FiraProcessingResult \<Rightarrow> Index_state \<Rightarrow> Index_state" where
  "handleFileUpload_resume awaited s =
     (let s1 = (case handle_try awaited of
                  Inr t \<Rightarrow>
                    s\<lparr>analysisData := Some t,
                      toasts := toasts s @
                        [\<lparr>title = ''Analysis Complete'',
                          description = ''Your FIRA document has been successfully analyzed.'',
                          destructive = False\<rparr>]\<rparr>
                | Inl e \<Rightarrow>
                    s\<lparr>toasts := toasts s @
                        [\<lparr>title = ''Processing Failed'',
                          description = (case e of
                                           Error m \<Rightarrow> m
                                         | NonError \<Rightarrow> ''Failed to process the FIRA document. Please try again.''),
                          destructive = True\<rparr>]\<rparr>)
      in s1\<lparr>isAnalyzing := False\<rparr>)"

definition handleBackToHome :: "Index_state \<Rightarrow> Index_state" where
  "handleBackToHome s = s\<lparr>page_uploadedFile := None, analysisData := None, isAnalyzing := False\<rparr>"

section \<open>The upload form: \<open>FileUpload\<close>\<close>

text \<open>
  The state of the component. \<open>paymentMethod\<close> is a \<open>PaymentMethod\<close> or the empty
  string, which is \<open>None\<close> here.
\<close>

record FileUpload_state =
  uploadedFile :: "File option"
  previewUrl :: "string option"
  acceptedTerms :: bool
  paymentMethod :: "PaymentMethod option"

definition FileUpload_initial :: FileUpload_state where
  "FileUpload_initial =
     \<lparr>uploadedFile = None, previewUrl = None, acceptedTerms = False, paymentMethod = None\<rparr>"

definition validTypes :: "string list" where
  "validTypes = [''application/pdf'', ''image/png'', ''image/jpeg'', ''image/jpg'']"

text \<open>\<open>s.startsWith(p)\<close>.\<close>

definition startsWith :: "string \<Rightarrow> string \<Rightarrow> bool" where
  "startsWith s p = (take (length p) s = p)"

text \<open>
  \<open>handleFile\<close>: the new state of the component and the toast it shows, if any.
  \<open>createObjectURL\<close> is the browser's answer to \<open>URL.createObjectURL\<close>.
\<close>

definition handleFile :: "(File \<Rightarrow> string) \<Rightarrow> File \<Rightarrow> FileUpload_state \<Rightarrow> FileUpload_state \<times> toast option" where
  "handleFile createObjectURL file s =
     (if file_type file \<notin> set validTypes then
        (s, Some \<lparr>title = ''Invalid file type'',
                  description = ''Please upload a PDF or image file (PNG, JPG, JPEG)'',
                  destructive = True\<rparr>)
      else
        (let s1 = s\<lparr>uploadedFile := Some file\<rparr>
         in if startsWith (file_type file) ''image/''
            then (s1\<lparr>previewUrl := Some (createObjectURL file)\<rparr>, None)
            else (s1\<lparr>previewUrl := None\<rparr>, None)))"

text \<open>Truthiness of the three operands of \<open>uploadedFile && acceptedTerms && paymentMethod\<close>.\<close>

definition truthy_object :: "'a option \<Rightarrow> bool" where
  "truthy_object x = (x \<noteq> None)"

definition truthy_string :: "string \<Rightarrow> bool" where
  "truthy_string s = (s \<noteq> [])"

definition paymentMethod_string :: "FileUpload_state \<Rightarrow> string" where
  "paymentMethod_string s = (case paymentMethod s of None \<Rightarrow> [] | Some m \<Rightarrow> PaymentMethod_value m)"

definition canAnalyze :: "FileUpload_state \<Rightarrow> bool" where
  "canAnalyze s =
     (truthy_object (uploadedFile s) \<and> acceptedTerms s \<and> truthy_string (paymentMethod_string s))"

text \<open>\<open>handleAnalyze\<close>: the call \<open>onFileUpload(uploadedFile, paymentMethod)\<close> it makes, if any.\<close>

definition handleAnalyze :: "FileUpload_state \<Rightarrow> (File \<times> PaymentMethod) option" where
  "handleAnalyze s =
     (if canAnalyze s then
        (case (uploadedFile s, paymentMethod s) of
           (Some file, Some m) \<Rightarrow> Some (file, m)
         | _ \<Rightarrow> None)
      else None)"

section \<open>The page and the form together\<close>

text \<open>
  The page, the form it renders (\<open>None\<close> while the form is not rendered) and the calls
  of \<open>uploadAndProcessFira\<close> that have not settled yet.
\<close>

record App =
  page :: Index_state
  form :: "FileUpload_state option"
  inflight :: "(File \<times> PaymentMethod) list"

text \<open>
  \<open>{!analysisData && !isAnalyzing && <FileUpload ... />}\<close>: the form is mounted, with
  its initial state, when the condition becomes true, kept while it stays true, and
  unmounted, losing its state, when it becomes false.
\<close>

definition render :: "App \<Rightarrow> App" where
  "render a =
     (if analysisData (page a) = None \<and> \<not> isAnalyzing (page a)
      then (case form a of None \<Rightarrow> a\<lparr>form := Some FileUpload_initial\<rparr> | Some u \<Rightarrow> a)
      else a\<lparr>form := None\<rparr>)"

datatype event =
    SelectFile File
  | SelectPaymentMethod PaymentMethod
  | CheckTerms bool
  | ClickAnalyze
  | ClickLogo
  | ClickBackToHome
  | Settle nat fetch_outcome

text \<open>
  One event, handled to its end before the next one: the handler runs on what is
  rendered, then the page renders again. An event on a control that is not rendered does
  nothing. \<open>Settle i outcome\<close> is the \<open>i\<close>-th pending call receiving its response.
\<close>

definition handle :: "(File \<Rightarrow> string) \<Rightarrow> (string \<Rightarrow> parsed) \<Rightarrow> event \<Rightarrow> App \<Rightarrow> App" where
  "handle createObjectURL JSON_parse e a =
     (case e of
        SelectFile file \<Rightarrow>
          (case form a of
             None \<Rightarrow> a
           | Some u \<Rightarrow>
               (case handleFile createObjectURL file u of
                  (u', t) \<Rightarrow>
                    a\<lparr>form := Some u',
                      page := (page a)\<lparr>toasts := toasts (page a) @ (case t of None \<Rightarrow> [] | Some x \<Rightarrow> [x])\<rparr>\<rparr>))
      | SelectPaymentMethod m \<Rightarrow>
          (case form a of
             None \<Rightarrow> a
           | Some u \<Rightarrow> if uploadedFile u = None then a else a\<lparr>form := Some (u\<lparr>paymentMethod := Some m\<rparr>)\<rparr>)
      | CheckTerms checked \<Rightarrow>
          (case form a of
             None \<Rightarrow> a
           | Some u \<Rightarrow> if uploadedFile u = None then a else a\<lparr>form := Some (u\<lparr>acceptedTerms := checked\<rparr>)\<rparr>)
      | ClickAnalyze \<Rightarrow>
          (case form a of
             None \<Rightarrow> a
           | Some u \<Rightarrow>
               (case handleAnalyze u of
                  None \<Rightarrow> a
                | Some (file, m) \<Rightarrow>
                    a\<lparr>page := handleFileUpload_begin file (page a),
                      inflight := inflight a @ [(file, m)]\<rparr>))
      | ClickLogo \<Rightarrow> a\<lparr>page := handleBackToHome (page a)\<rparr>
      | ClickBackToHome \<Rightarrow>
          (if analysisData (page a) = None then a else a\<lparr>page := handleBackToHome (page a)\<rparr>)
      | Settle i outcome \<Rightarrow>
          (if i < length (inflight a) then
             a\<lparr>page := handleFileUpload_resume (uploadAndProcessFira JSON_parse outcome) (page a),
               inflight := take i (inflight a) @ drop (Suc i) (inflight a)\<rparr>
           else a))"

definition step :: "(File \<Rightarrow> string) \<Rightarrow> (string \<Rightarrow> parsed) \<Rightarrow> App \<Rightarrow> event \<Rightarrow> App" where
  "step createObjectURL JSON_parse a e = render (handle createObjectURL JSON_parse e a)"

definition App_initial :: App where
  "App_initial =
     render \<lparr>page = \<lparr>page_uploadedFile = None, analysisData = None, isAnalyzing = False, toasts = []\<rparr>,
             form = None, inflight = []\<rparr>"

definition run :: "(File \<Rightarrow> string) \<Rightarrow> (string \<Rightarrow> parsed) \<Rightarrow> event list \<Rightarrow> App" where
  "run createObjectURL JSON_parse es = foldl (step createObjectURL JSON_parse) App_initial es"

text \<open>
  The logo is clicked only while no call is pending: along the events, from the state
  \<open>a\<close> on, every click on the logo finds \<open>inflight\<close> empty.
\<close>

fun logo_only_when_idle :: "(File \<Rightarrow> string) \<Rightarrow> (string \<Rightarrow> parsed) \<Rightarrow> App \<Rightarrow> event list \<Rightarrow> bool" where
  "logo_only_when_idle createObjectURL JSON_parse a [] = True"
| "logo_only_when_idle createObjectURL JSON_parse a (e # es) =
     ((case e of ClickLogo \<Rightarrow> inflight a = [] | _ \<Rightarrow> True) \<and>
      logo_only_when_idle createObjectURL JSON_parse (step createObjectURL JSON_parse a e) es)"

section \<open>The claims in the words of the specification\<close>

text \<open>
  The total as the specification words it: the three fee amounts rounded to two decimals
  first, then summed, and the sum rounded.
\<close>

definition spec_totalOnTransaction :: "number \<Rightarrow> number \<Rightarrow> number \<Rightarrow> number" where
  "spec_totalOnTransaction wire fira txn =
     Number_of (toFixed 2 (js_add (js_add (Number_of (toFixed 2 wire)) (Number_of (toFixed 2 fira)))
                                  (Number_of (toFixed 2 txn))))"

text \<open>
  The savings percentage as the specification words it: from the amount that has already
  been rounded.
\<close>

definition spec_savings_percentage :: "number \<Rightarrow> number \<Rightarrow> number" where
  "spec_savings_percentage finalSkydo final =
     Number_of (toFixed 2 (js_mul (js_div (Number_of (toFixed 2 (js_sub finalSkydo final))) final)
                                  (Fin 100)))"

section \<open>Example inputs\<close>

text \<open>
  The example scenario of the specification; the fees of the alternative provider, which
  the scenario leaves open, are set to the difference it implies. Every number of the
  scenario, 84.5 included, is a binary64 value.
\<close>

definition example_data :: FiraDataDto where
  "example_data =
     \<lparr>dto_id = Some (Fin 1), amount = Some (Fin 1000), currency = Some ''USD'',
      inrAmount = Some (Fin 83000), fxRateSkydo = Some (Fin (169 / 2)),
      calculatedExchangeRate = Some (Fin 83),
      transactionSkydoFee = Some (Fin 100), skydoFiraFee = Some (Fin 200),
      skydoWireFee = Some (Fin 500),
      platformFiraFee = Some (Fin 200), platformWireFee = Some (Fin 500),
      platformTransactionFee = Some (Fin 100),
      finalInrAmount = Some (Fin 82200), finalInrAmountSkydo = Some (Fin 83700),
      valueDate = Some ''2024-01-01''\<rparr>"

text \<open>Fees of \<open>1 / 256 = 0.00390625\<close> and final amounts \<open>1\<close> and \<open>1.00390625\<close>.\<close>

definition fraction_data :: FiraDataDto where
  "fraction_data =
     example_data\<lparr>platformFiraFee := Some (Fin (1 / 256)), platformWireFee := Some (Fin (1 / 256)),
                  platformTransactionFee := Some (Fin (1 / 256)),
                  finalInrAmount := Some (Fin 1), finalInrAmountSkydo := Some (Fin (257 / 256))\<rparr>"

text \<open>The example scenario with \<open>inrAmount = 0\<close>.\<close>

definition zero_data :: FiraDataDto where
  "zero_data = example_data\<lparr>inrAmount := Some (Fin 0)\<rparr>"

definition success_result :: "FiraDataDto \<Rightarrow> FiraProcessingResult" where
  "success_result d =
     \<lparr>success = True, message = Some ''OK'', firaData = Some d,
      processingTimeMs = Some (Fin 12), errors = Some []\<rparr>"

text \<open>The failure response of the specification's example, and one whose only error is empty.\<close>

definition unreadable_result :: FiraProcessingResult where
  "unreadable_result =
     \<lparr>success = False, message = None, firaData = None,
      processingTimeMs = None, errors = Some [''Unable to read document'']\<rparr>"

definition empty_error_result :: FiraProcessingResult where
  "empty_error_result =
     \<lparr>success = False, message = Some ''Processing failed'', firaData = None,
      processingTimeMs = Some (Fin 12), errors = Some ['''']\<rparr>"

text \<open>A parser that reads every body as the given result, and a browser naming every URL alike.\<close>

definition parse_as :: "FiraProcessingResult \<Rightarrow> string \<Rightarrow> parsed" where
  "parse_as result body = Parsed result"

definition blob_url :: "File \<Rightarrow> string" where
  "blob_url file = ''blob:'' @ file_name file"

definition Index_initial :: Index_state where
  "Index_initial =
     \<lparr>page_uploadedFile = None, analysisData = None, isAnalyzing = False, toasts = []\<rparr>"

definition pdf_file :: File where
  "pdf_file = \<lparr>file_name = ''fira.pdf'', file_type = ''application/pdf''\<rparr>"


text \<open>Filling the form and submitting it.\<close>

definition submit_events :: "event list" where
  "submit_events = [SelectFile pdf_file, SelectPaymentMethod BANK, CheckTerms True, ClickAnalyze]"

text \<open>
  Submitting, the call failing with HTTP 500, a click on the logo, and submitting again.
\<close>

definition resubmit_events :: "event list" where
  "resubmit_events =
     submit_events @
     [Settle 0 (Response False 500 ''Internal Server Error''), ClickLogo] @
     submit_events"

text \<open>The example scenario with the two final amounts exchanged, and with both equal.\<close>

definition swapped_data :: FiraDataDto where
  "swapped_data =
     example_data\<lparr>finalInrAmount := Some (Fin 83700), finalInrAmountSkydo := Some (Fin 82200)\<rparr>"

definition equal_data :: FiraDataDto where
  "equal_data = example_data\<lparr>finalInrAmountSkydo := Some (Fin 82200)\<rparr>"

text \<open>The example scenario without \<open>inrAmount\<close> and \<open>finalInrAmount\<close>.\<close>

definition missing_data :: FiraDataDto where
  "missing_data = example_data\<lparr>inrAmount := None, finalInrAmount := None\<rparr>"

text \<open>A form that is ready to be submitted.\<close>

definition filled_form :: FileUpload_state where
  "filled_form =
     \<lparr>uploadedFile = Some pdf_file, previewUrl = None, acceptedTerms = True,
      paymentMethod = Some BANK\<rparr>"

section \<open>Rounding to binary64\<close>

lemma pow2_powi: "pow2 e = 2 powi e"
  unfolding pow2_def power_int_def by (simp add: inverse_eq_divide power_one_over)

lemma pow2_pos: "0 < pow2 e"
  by (simp add: pow2_powi)

lemma pow2_add: "pow2 (a + b) = pow2 a * pow2 b"
  by (simp add: pow2_powi power_int_add)

lemma pow2_mono: "a \<le> b \<Longrightarrow> pow2 a \<le> pow2 b"
  by (simp add: pow2_powi power_int_increasing)

lemma pow2_less_cancel: "pow2 a < pow2 b \<Longrightarrow> a < b"
  using pow2_mono [of b a] by (cases "a < b") auto

lemma of_int_bitlen_bounds:
  assumes "0 < n"
  shows "pow2 (bitlen n - 1) \<le> of_int n" and "of_int n < pow2 (bitlen n)"
proof -
  have b: "2 ^ nat (bitlen n - 1) \<le> n" "n < 2 ^ nat (bitlen n)"
    using bitlen_bounds [OF assms] by auto
  have ge: "1 \<le> bitlen n"
    using assms by (simp add: bitlen_alt_def)
  have "pow2 (bitlen n - 1) = of_int (2 ^ nat (bitlen n - 1))"
    using ge by (simp add: pow2_def)
  also have "\<dots> \<le> of_int n"
    using b(1) by (simp only: of_int_le_iff)
  finally show "pow2 (bitlen n - 1) \<le> of_int n" .
  have "(of_int n :: rat) < of_int (2 ^ nat (bitlen n))"
    using b(2) by (simp only: of_int_less_iff)
  also have "\<dots> = pow2 (bitlen n)"
    using ge by (simp add: pow2_def)
  finally show "of_int n < pow2 (bitlen n)" .
qed

text \<open>\<open>ilog2\<close> is the binary exponent.\<close>

lemma ilog2_bounds:
  assumes "0 < r"
  shows "pow2 (ilog2 r) \<le> r" and "r < pow2 (ilog2 r + 1)"
proof -
  obtain n d where q: "quotient_of r = (n, d)"
    by (cases "quotient_of r")
  have d: "0 < d" using quotient_of_denom_pos [OF q] .
  have r: "r = of_int n / of_int d" using quotient_of_div [OF q] .
  have n: "0 < n"
    using assms d unfolding r by (simp add: zero_less_divide_iff)
  define k where "k = bitlen n - bitlen d"
  have il: "ilog2 r = (if r < pow2 k then k - 1 else k)"
    by (simp add: ilog2_def q k_def Let_def)
  have dpos: "(0::rat) < of_int d" using d by simp
  have "pow2 (k - 1) * of_int d \<le> pow2 (k - 1) * pow2 (bitlen d)"
    using of_int_bitlen_bounds(2) [OF d] pow2_pos [of "k - 1"] by simp
  also have "\<dots> = pow2 (bitlen n - 1)"
    by (simp add: k_def flip: pow2_add)
  also have "\<dots> \<le> of_int n"
    using of_int_bitlen_bounds(1) [OF n] .
  finally have lo: "pow2 (k - 1) \<le> r"
    unfolding r using dpos by (simp add: pos_le_divide_eq)
  have "of_int n < pow2 (bitlen n)"
    using of_int_bitlen_bounds(2) [OF n] .
  also have "\<dots> = pow2 (k + 1) * pow2 (bitlen d - 1)"
    by (simp add: k_def flip: pow2_add)
  also have "\<dots> \<le> pow2 (k + 1) * of_int d"
    using of_int_bitlen_bounds(1) [OF d] pow2_pos [of "k + 1"] by simp
  finally have hi: "r < pow2 (k + 1)"
    unfolding r using dpos by (simp add: pos_divide_less_eq)
  show "pow2 (ilog2 r) \<le> r"
    using lo by (simp add: il)
  show "r < pow2 (ilog2 r + 1)"
    using hi by (simp add: il)
qed

lemma ilog2_unique:
  assumes "pow2 k \<le> r" "r < pow2 (k + 1)"
  shows "ilog2 r = k"
proof -
  have pos: "0 < r" using pow2_pos [of k] assms(1) by simp
  have "pow2 k < pow2 (ilog2 r + 1)"
    using assms(1) ilog2_bounds(2) [OF pos] by simp
  then have a: "k < ilog2 r + 1" by (rule pow2_less_cancel)
  have "pow2 (ilog2 r) < pow2 (k + 1)"
    using assms(2) ilog2_bounds(1) [OF pos] by simp
  then have "ilog2 r < k + 1" by (rule pow2_less_cancel)
  with a show ?thesis by simp
qed

lemma rne_bounds: "of_int (rne x) \<le> x + 1 / 2" "x - 1 / 2 \<le> of_int (rne x)"
proof -
  have f: "of_int \<lfloor>x\<rfloor> \<le> x" "x < of_int \<lfloor>x\<rfloor> + 1"
    by linarith+
  show "of_int (rne x) \<le> x + 1 / 2"
    unfolding rne_def Let_def using f by (auto; linarith)
  show "x - 1 / 2 \<le> of_int (rne x)"
    unfolding rne_def Let_def using f by (auto; linarith)
qed

lemma rne_nonneg: "0 \<le> x \<Longrightarrow> 0 \<le> rne x"
  by (auto simp add: rne_def Let_def)

lemma round_mag_nonneg:
  assumes "0 \<le> r" "round_mag r = Some v"
  shows "0 \<le> v"
proof -
  define q where "q = pow2 (max (ilog2 r) (- 1022) - 52)"
  have q: "0 < q" by (simp add: q_def pow2_pos)
  have v: "v = of_int (rne (r / q)) * q"
    using assms(2) by (simp add: round_mag_def Let_def q_def split: if_splits)
  have "0 \<le> rne (r / q)"
    using assms(1) q by (intro rne_nonneg) simp
  then show ?thesis
    using q by (simp add: v)
qed

text \<open>From the smallest subnormal on, rounding keeps at least half of the magnitude.\<close>

lemma round_mag_ge_half:
  assumes "pow2 (- 1074) \<le> r" "round_mag r = Some v"
  shows "r / 2 \<le> v"
proof -
  have pos: "0 < r" using pow2_pos [of "- 1074"] assms(1) by simp
  define e where "e = max (ilog2 r) (- 1022)"
  define q where "q = pow2 (e - 52)"
  have q: "0 < q" by (simp add: q_def pow2_pos)
  have v: "v = of_int (rne (r / q)) * q"
    using assms(2) by (simp add: round_mag_def Let_def q_def e_def split: if_splits)
  have "q \<le> r"
  proof (cases "ilog2 r \<le> - 1022")
    case True
    then have "q = pow2 (- 1074)" by (simp add: q_def e_def max_def)
    then show ?thesis using assms(1) by simp
  next
    case False
    then have "q = pow2 (ilog2 r - 52)" by (simp add: q_def e_def max_def)
    also have "\<dots> \<le> pow2 (ilog2 r)" by (rule pow2_mono) simp
    also have "\<dots> \<le> r" using ilog2_bounds(1) [OF pos] .
    finally show ?thesis .
  qed
  then have one: "1 \<le> r / q" using q by (simp add: pos_le_divide_eq)
  have "r / q / 2 \<le> r / q - 1 / 2" using one by simp
  also have "\<dots> \<le> of_int (rne (r / q))" by (rule rne_bounds(2))
  finally have "r / q / 2 * q \<le> of_int (rne (r / q)) * q"
    using q by (simp only: mult_le_cancel_right_pos)
  then show ?thesis using q by (simp add: v)
qed

lemma pow2_1024: "pow2 1023 + pow2 970 \<le> pow2 1024"
proof -
  have "pow2 970 \<le> pow2 1023" by (rule pow2_mono) simp
  moreover have "pow2 1024 = pow2 1023 * 2"
    using pow2_add [of 1023 1] by (simp add: pow2_def)
  ultimately show ?thesis by simp
qed

text \<open>The rounded magnitude of a rational whose binary exponent \<open>k\<close> is in the normal range.\<close>

lemma round_mag_at:
  assumes "pow2 k \<le> r" "r < pow2 (k + 1)" "- 1022 \<le> k" "k < 1023"
  shows "round_mag r = Some (of_int (rne (r / pow2 (k - 52))) * pow2 (k - 52))"
proof -
  define q where "q = pow2 (k - 52)"
  have q: "0 < q" by (simp add: q_def pow2_pos)
  have il: "ilog2 r = k" using assms(1,2) by (rule ilog2_unique)
  have "of_int (rne (r / q)) * q \<le> (r / q + 1 / 2) * q"
    using rne_bounds(1) [of "r / q"] q by (simp only: mult_le_cancel_right_pos)
  also have "\<dots> = r + q / 2" using q by (simp add: field_simps)
  also have "\<dots> < pow2 (k + 1) + q" using assms(2) q by simp
  also have "\<dots> \<le> pow2 1023 + pow2 970"
    using pow2_mono [of "k + 1" 1023] pow2_mono [of "k - 52" 970] assms(4)
    by (simp add: q_def add_mono)
  also have "\<dots> \<le> pow2 1024" by (rule pow2_1024)
  finally have "of_int (rne (r / q)) * q < pow2 1024" .
  then show ?thesis
    using assms(3) by (simp add: round_mag_def il q_def Let_def max_def)
qed

lemma fl_at:
  assumes "pow2 k \<le> r" "r < pow2 (k + 1)" "- 1022 \<le> k" "k < 1023"
  shows "fl r = Fin (of_int (rne (r / pow2 (k - 52))) * pow2 (k - 52))"
proof -
  have "0 < r" using pow2_pos [of k] assms(1) by simp
  then show ?thesis
    by (simp add: fl_def round_mag_at [OF assms])
qed

lemma fl_at_neg:
  assumes "pow2 k \<le> r" "r < pow2 (k + 1)" "- 1022 \<le> k" "k < 1023"
  shows "fl (- r) = Fin (- (of_int (rne (r / pow2 (k - 52))) * pow2 (k - 52)))"
proof -
  have pos: "0 < r" using pow2_pos [of k] assms(1) by simp
  have "pow2 (- 1074) \<le> pow2 k" using assms(3) by (intro pow2_mono) simp
  then have "pow2 (- 1074) \<le> r" using assms(1) by simp
  then have "r / 2 \<le> of_int (rne (r / pow2 (k - 52))) * pow2 (k - 52)"
    using round_mag_at [OF assms] by (rule round_mag_ge_half)
  then have "of_int (rne (r / pow2 (k - 52))) * pow2 (k - 52) \<noteq> 0"
    using pos by auto
  then show ?thesis
    using pos by (simp add: fl_def round_mag_at [OF assms])
qed

lemma floor_rat_numeral: "\<lfloor>(numeral a :: rat) / numeral b\<rfloor> = numeral a div numeral b"
  using floor_divide_of_int_eq [of "numeral a" "numeral b", where ?'a = rat] by simp

subsection \<open>Values of the examples\<close>

lemmas fl_eval = pow2_def rne_def Let_def floor_rat_numeral
lemmas op_eval = js_sub_def js_add_def js_mul_def js_div_def zero_s_def inf_s_def literal_def

lemma fl_800: "fl 800 = Fin 800"
  using fl_at [of 9 800] by (simp add: fl_eval)

lemma fl_700: "fl 700 = Fin 700"
  using fl_at [of 9 700] by (simp add: fl_eval)

lemma fl_1500: "fl 1500 = Fin 1500"
  using fl_at [of 10 1500] by (simp add: fl_eval)

lemma fl_84500: "fl 84500 = Fin 84500"
  using fl_at [of 16 84500] by (simp add: fl_eval)

lemma fl_4_415: "fl (4 / 415) = Fin (5556248214972757 / 576460752303423488)"
  using fl_at [of "- 7" "4 / 415"] by (simp add: fl_eval)

lemma fl_cp_cost: "fl (138906205374318925 / 144115188075855872) = Fin (8681637835894933 / 9007199254740992)"
  using fl_at [of "- 1" "138906205374318925 / 144115188075855872"] by (simp add: fl_eval)

lemma fl_8_845: "fl (8 / 845) = Fin (5457616589854897 / 576460752303423488)"
  using fl_at [of "- 7" "8 / 845"] by (simp add: fl_eval)

lemma fl_sk_cost: "fl (136440414746372425 / 144115188075855872) = Fin (8527525921648277 / 9007199254740992)"
  using fl_at [of "- 1" "136440414746372425 / 144115188075855872"] by (simp add: fl_eval)

lemma fl_5_274: "fl (5 / 274) = Fin (2629839198464523 / 144115188075855872)"
  using fl_at [of "- 6" "5 / 274"] by (simp add: fl_eval)

lemma fl_percentage: "fl (65745979961613075 / 36028797018963968) = Fin (4109123747600817 / 2251799813685248)"
  using fl_at [of 0 "65745979961613075 / 36028797018963968"] by (simp add: fl_eval)

lemma fl_182: "fl (91 / 50) = Fin (8196551321814303 / 4503599627370496)"
  using fl_at [of 0 "91 / 50"] by (simp add: fl_eval)

lemma fl_183: "fl (183 / 100) = Fin (1030198414761001 / 562949953421312)"
  using fl_at [of 0 "183 / 100"] by (simp add: fl_eval)

lemma cost_current:
  "Number_of (toFixed 2 (js_mul (js_div (js_sub (Fin 83000) (Fin 82200)) (Fin 83000)) (Fin 100)))
     = literal (96 / 100)"
  by (simp add: op_eval fl_800 fl_4_415 fl_cp_cost floor_rat_numeral)

lemma payment_skydo: "js_mul (Fin 1000) (Fin (169 / 2)) = Fin 84500"
  by (simp add: op_eval fl_84500 floor_rat_numeral)

lemma payment_skydo_fixed: "Number_of (toFixed 2 (Fin 84500)) = Fin 84500"
  by (simp add: op_eval fl_84500 floor_rat_numeral)

lemma cost_skydo:
  "Number_of (toFixed 2 (js_mul (js_div (js_sub (Fin 84500) (Fin 83700)) (Fin 84500)) (Fin 100)))
     = literal (95 / 100)"
  by (simp add: op_eval fl_800 fl_8_845 fl_sk_cost floor_rat_numeral)

lemma savings_example:
  "Number_of (toFixed 2 (js_sub (Fin 83700) (Fin 82200))) = Fin 1500"
  by (simp add: op_eval fl_1500 floor_rat_numeral)

lemma percentage_example:
  "Number_of (toFixed 2 (js_mul (js_div (js_sub (Fin 83700) (Fin 82200)) (Fin 82200)) (Fin 100)))
     = literal (182 / 100)"
  by (simp add: op_eval fl_1500 fl_5_274 fl_percentage floor_rat_numeral)

lemma total_example:
  "Number_of (toFixed 2 (js_add (js_add (Fin 500) (Fin 200)) (Fin 100))) = Fin 800"
  by (simp add: op_eval fl_700 fl_800 floor_rat_numeral)

lemma literal_182_183: "literal (182 / 100) \<noteq> literal (183 / 100)"
  by (simp add: literal_def fl_182 fl_183)


lemma fl_1_100: "fl (1 / 100) = Fin (5764607523034235 / 576460752303423488)"
  using fl_at [of "- 7" "1 / 100"] by (simp add: fl_eval)

lemma fl_39_100: "fl (39 / 100) = Fin (3512807709348987 / 9007199254740992)"
  using fl_at [of "- 2" "39 / 100"] by (simp add: fl_eval)

lemma fl_1_128: "fl (1 / 128) = Fin (1 / 128)"
  using fl_at [of "- 7" "1 / 128"] by (simp add: fl_eval)

lemma fl_1_256: "fl (1 / 256) = Fin (1 / 256)"
  using fl_at [of "- 8" "1 / 256"] by (simp add: fl_eval)

lemma fl_3_256: "fl (3 / 256) = Fin (3 / 256)"
  using fl_at [of "- 7" "3 / 256"] by (simp add: fl_eval)

lemma fl_25_64: "fl (25 / 64) = Fin (25 / 64)"
  using fl_at [of "- 2" "25 / 64"] by (simp add: fl_eval)

lemma fl_neg_82200: "fl (- 82200) = Fin (- 82200)"
  using fl_at_neg [of 16 82200] by (simp add: fl_eval)

lemma total_fraction:
  "Number_of (toFixed 2 (js_add (js_add (Fin (1 / 256)) (Fin (1 / 256))) (Fin (1 / 256))))
     = literal (1 / 100)"
  by (simp add: op_eval fl_1_128 fl_3_256 floor_rat_numeral)

lemma spec_total_fraction:
  "spec_totalOnTransaction (Fin (1 / 256)) (Fin (1 / 256)) (Fin (1 / 256)) = Fin 0"
  by (simp add: spec_totalOnTransaction_def op_eval fl_def floor_rat_numeral)

lemma savings_fraction:
  "Number_of (toFixed 2 (js_sub (Fin (257 / 256)) (Fin 1))) = Fin 0"
  by (simp add: op_eval fl_1_256 floor_rat_numeral)

lemma percentage_fraction:
  "Number_of (toFixed 2 (js_mul (js_div (js_sub (Fin (257 / 256)) (Fin 1)) (Fin 1)) (Fin 100)))
     = literal (39 / 100)"
  by (simp add: op_eval fl_1_256 fl_25_64 floor_rat_numeral)

lemma spec_percentage_fraction:
  "spec_savings_percentage (Fin (257 / 256)) (Fin 1) = Fin 0"
  by (simp add: spec_savings_percentage_def op_eval fl_1_256 floor_rat_numeral)

lemma cost_zero:
  "Number_of (toFixed 2 (js_mul (js_div (js_sub (Fin 0) (Fin 82200)) (Fin 0)) (Fin 100))) = NegInf"
  by (simp add: op_eval fl_neg_82200)

subsection \<open>Signs\<close>

lemma js_le_zero_iff:
  "js_le (Fin 0) x \<longleftrightarrow> x = PosInf \<or> x = NegZero \<or> (\<exists>r. x = Fin r \<and> 0 \<le> r)"
  by (cases x) (auto simp add: js_le_def)

lemma js_le_zero_iff2:
  "js_le x (Fin 0) \<longleftrightarrow> x = NegInf \<or> x = NegZero \<or> (\<exists>r. x = Fin r \<and> r \<le> 0)"
  by (cases x) (auto simp add: js_le_def)

lemma js_lt_zero_iff: "js_lt (Fin 0) x \<longleftrightarrow> x = PosInf \<or> (\<exists>r. x = Fin r \<and> 0 < r)"
  by (cases x) auto

lemma js_lt_zero_iff2: "js_lt x (Fin 0) \<longleftrightarrow> x = NegInf \<or> (\<exists>r. x = Fin r \<and> r < 0)"
  by (cases x) auto

lemma js_lt_finite: "js_finite x \<Longrightarrow> js_finite y \<Longrightarrow> js_lt x y \<longleftrightarrow> rat_of x < rat_of y"
  by (cases x; cases y) (simp_all add: js_finite_def)

lemma js_eq_finite: "js_finite x \<Longrightarrow> js_finite y \<Longrightarrow> js_eq x y \<longleftrightarrow> rat_of x = rat_of y"
  by (cases x; cases y) (simp_all add: js_finite_def)

lemma fl_nonneg: "0 \<le> r \<Longrightarrow> js_le (Fin 0) (fl r)"
  by (auto simp add: fl_def js_le_zero_iff split: option.splits dest: round_mag_nonneg [rotated])

lemma fl_nonpos: "r \<le> 0 \<Longrightarrow> js_le (fl r) (Fin 0)"
proof (cases "r = 0")
  case True
  then show ?thesis by (simp add: fl_def js_le_def)
next
  case False
  assume "r \<le> 0"
  with False have neg: "r < 0" by simp
  show ?thesis
  proof (cases "round_mag (- r)")
    case None
    then show ?thesis using neg by (simp add: fl_def js_le_def)
  next
    case (Some v)
    then have "0 \<le> v" using neg round_mag_nonneg [of "- r" v] by simp
    then show ?thesis using neg Some by (simp add: fl_def js_le_zero_iff2)
  qed
qed

lemma pow2_tiny: "pow2 (- 1074) \<le> 1 / 100"
proof -
  have "pow2 (- 1074) \<le> pow2 (- 7)" by (rule pow2_mono) simp
  also have "\<dots> \<le> 1 / 100" by (simp add: pow2_def)
  finally show ?thesis .
qed

lemma fl_pos:
  assumes "1 / 100 \<le> r"
  shows "fl r = PosInf \<or> (\<exists>v. fl r = Fin v \<and> r / 2 \<le> v)"
proof -
  have p: "pow2 (- 1074) \<le> r" using pow2_tiny assms by simp
  have pos: "0 < r" using assms by simp
  show ?thesis
  proof (cases "round_mag r")
    case None
    then show ?thesis using pos by (simp add: fl_def)
  next
    case (Some v)
    then have "r / 2 \<le> v" using p by (intro round_mag_ge_half)
    then show ?thesis using pos Some by (simp add: fl_def)
  qed
qed

lemma fl_neg:
  assumes "1 / 100 \<le> r"
  shows "fl (- r) = NegInf \<or> (\<exists>v. fl (- r) = Fin (- v) \<and> r / 2 \<le> v)"
proof -
  have p: "pow2 (- 1074) \<le> r" using pow2_tiny assms by simp
  have pos: "0 < r" using assms by simp
  show ?thesis
  proof (cases "round_mag r")
    case None
    then show ?thesis using pos by (simp add: fl_def)
  next
    case (Some v)
    then have "r / 2 \<le> v" using p by (intro round_mag_ge_half)
    then show ?thesis using pos Some by (auto simp add: fl_def)
  qed
qed

text \<open>Rounding to two decimals keeps the sign.\<close>

lemma Digits_nonneg: "js_le (Fin 0) (Number_of (Digits False n f))"
proof (cases "n = 0")
  case True
  then show ?thesis by (simp add: zero_s_def js_le_def)
next
  case False
  have "js_le (Fin 0) (fl (of_nat n / 10 ^ f))"
    by (rule fl_nonneg) simp
  then show ?thesis using False by simp
qed

lemma Digits_nonpos: "js_le (Number_of (Digits True n f)) (Fin 0)"
proof (cases "n = 0")
  case True
  then show ?thesis by (simp add: zero_s_def js_le_def)
next
  case False
  have "js_le (fl (- (of_nat n / 10 ^ f))) (Fin 0)"
    by (rule fl_nonpos) simp
  then show ?thesis using False by simp
qed

lemma round2_nonneg:
  assumes "js_le (Fin 0) x"
  shows "js_le (Fin 0) (Number_of (toFixed 2 x))"
proof -
  consider "x = PosInf" | "x = NegZero" | r where "x = Fin r" "0 \<le> r"
    using assms by (auto simp add: js_le_zero_iff)
  then show ?thesis
  proof cases
    case 1
    then show ?thesis by (simp add: js_le_def)
  next
    case 2
    then show ?thesis by (simp add: js_le_def zero_s_def)
  next
    case 3
    show ?thesis
    proof (cases "10 ^ 21 \<le> \<bar>r\<bar>")
      case True
      then show ?thesis using 3 assms by simp
    next
      case False
      then have "toFixed 2 x = Digits False (nat \<lfloor>\<bar>r\<bar> * 10 ^ 2 + 1 / 2\<rfloor>) 2"
        using 3 by simp
      then show ?thesis by (simp only: Digits_nonneg)
    qed
  qed
qed

lemma round2_nonpos:
  assumes "js_le x (Fin 0)"
  shows "js_le (Number_of (toFixed 2 x)) (Fin 0)"
proof -
  consider "x = NegInf" | "x = NegZero" | "x = Fin 0" | r where "x = Fin r" "r < 0"
    using assms by (auto simp add: js_le_zero_iff2 less_le)
  then show ?thesis
  proof cases
    case 1
    then show ?thesis by (simp add: js_le_def)
  next
    case 2
    then show ?thesis by (simp add: js_le_def zero_s_def)
  next
    case 3
    then show ?thesis by (simp add: js_le_def zero_s_def)
  next
    case 4
    show ?thesis
    proof (cases "10 ^ 21 \<le> \<bar>r\<bar>")
      case True
      then show ?thesis using 4 assms by simp
    next
      case False
      then have "toFixed 2 x = Digits True (nat \<lfloor>\<bar>r\<bar> * 10 ^ 2 + 1 / 2\<rfloor>) 2"
        using 4 by simp
      then show ?thesis by (simp only: Digits_nonpos)
    qed
  qed
qed

lemma cents_ge_1:
  assumes "1 / 200 \<le> (v :: rat)"
  shows "1 \<le> nat \<lfloor>v * 100 + 1 / 2\<rfloor>"
proof -
  have "1 \<le> v * 100 + 1 / 2" using assms by simp
  then have "1 \<le> \<lfloor>v * 100 + 1 / 2\<rfloor>" by (simp add: le_floor_iff)
  then show ?thesis by arith
qed

lemma round2_pos:
  assumes "x = PosInf \<or> (\<exists>v. x = Fin v \<and> 1 / 200 \<le> v)"
  shows "js_lt (Fin 0) (Number_of (toFixed 2 x))"
proof -
  consider "x = PosInf" | v where "x = Fin v" "1 / 200 \<le> v"
    using assms by auto
  then show ?thesis
  proof cases
    case 1
    then show ?thesis by simp
  next
    case 2
    define n where "n = nat \<lfloor>v * 100 + 1 / 2\<rfloor>"
    have n: "1 \<le> n" unfolding n_def using 2(2) by (rule cents_ge_1)
    then have "1 / 100 \<le> (of_nat n :: rat) / 100" by simp
    then have "js_lt (Fin 0) (fl (of_nat n / 100))"
      using fl_pos [of "of_nat n / 100"] by (auto simp add: js_lt_zero_iff)
    then show ?thesis using 2 n by (simp add: n_def)
  qed
qed

lemma round2_neg:
  assumes "x = NegInf \<or> (\<exists>v. x = Fin (- v) \<and> 1 / 200 \<le> v)"
  shows "js_lt (Number_of (toFixed 2 x)) (Fin 0)"
proof -
  consider "x = NegInf" | v where "x = Fin (- v)" "1 / 200 \<le> v"
    using assms by auto
  then show ?thesis
  proof cases
    case 1
    then show ?thesis by simp
  next
    case 2
    define n where "n = nat \<lfloor>v * 100 + 1 / 2\<rfloor>"
    have n: "1 \<le> n" unfolding n_def using 2(2) by (rule cents_ge_1)
    then have "1 / 100 \<le> (of_nat n :: rat) / 100" by simp
    then have "js_lt (fl (- (of_nat n / 100))) (Fin 0)"
      using fl_neg [of "of_nat n / 100"] by (auto simp add: js_lt_zero_iff2)
    then show ?thesis using 2 n by (simp add: n_def)
  qed
qed

lemma js_sub_finite:
  assumes "js_finite x" "js_finite y"
  shows "js_sub x y = (if x = NegZero \<and> y = Fin 0 then NegZero else fl (rat_of x - rat_of y))"
  using assms by (cases x; cases y) (simp_all add: js_finite_def js_sub_def js_add_def)

section \<open>The comparison record\<close>

lemma field_toFixed_Some: "field_toFixed f x = Some y \<longleftrightarrow> (\<exists>v. x = Some v \<and> y = toFixed f v)"
  by (cases x) auto

text \<open>The record is computed exactly when the ten properties read with \<open>toFixed\<close> are present.\<close>

lemma transformedData_fields:
  assumes "transformedData d = Some t"
  shows "\<exists>a ia fx ce pw pf pt sw sf st.
           amount d = Some a \<and> inrAmount d = Some ia \<and> fxRateSkydo d = Some fx \<and>
           calculatedExchangeRate d = Some ce \<and> platformWireFee d = Some pw \<and>
           platformFiraFee d = Some pf \<and> platformTransactionFee d = Some pt \<and>
           skydoWireFee d = Some sw \<and> skydoFiraFee d = Some sf \<and> transactionSkydoFee d = Some st"
  using assms
  by (auto simp add: transformedData_def Let_def bind_eq_Some_conv field_toFixed_Some)

lemma transformedData_defined:
  assumes "amount d = Some a" "inrAmount d = Some ia" "fxRateSkydo d = Some fx"
    "calculatedExchangeRate d = Some ce" "platformWireFee d = Some pw"
    "platformFiraFee d = Some pf" "platformTransactionFee d = Some pt"
    "skydoWireFee d = Some sw" "skydoFiraFee d = Some sf" "transactionSkydoFee d = Some st"
  shows "\<exists>t. transformedData d = Some t"
  using assms by (simp add: transformedData_def Let_def)

lemma transformedData_totals:
  assumes "transformedData d = Some t"
  shows "totalOnTransaction (currentProvider t) =
           Number_of (toFixed 2 (js_add (js_add (num (platformWireFee d)) (num (platformFiraFee d)))
                                        (num (platformTransactionFee d))))"
    and "totalOnTransaction (skydo t) =
           Number_of (toFixed 2 (js_add (js_add (num (skydoWireFee d)) (num (skydoFiraFee d)))
                                        (num (transactionSkydoFee d))))"
  using assms
  by (auto simp add: transformedData_def Let_def bind_eq_Some_conv)

lemma transformedData_charges:
  assumes "transformedData d = Some t"
  shows "map charge_amount (charges (currentProvider t)) =
           [Number_of (toFixed 4 (num (calculatedExchangeRate d))),
            Number_of (toFixed 2 (num (platformWireFee d))),
            Number_of (toFixed 2 (num (platformFiraFee d))),
            Number_of (toFixed 2 (num (platformTransactionFee d)))]"
    and "map charge_amount (charges (skydo t)) =
           [Number_of (toFixed 4 (num (fxRateSkydo d))),
            Number_of (toFixed 2 (num (skydoWireFee d))),
            Number_of (toFixed 2 (num (skydoFiraFee d))),
            Number_of (toFixed 2 (num (transactionSkydoFee d)))]"
  using assms
  by (auto simp add: transformedData_def Let_def bind_eq_Some_conv field_toFixed_Some)

lemma transformedData_savings:
  assumes "transformedData d = Some t"
  shows "savings_amount (savings t) =
           Number_of (toFixed 2 (js_sub (num (finalInrAmountSkydo d)) (num (finalInrAmount d))))"
    and "savings_percentage (savings t) =
           Number_of (toFixed 2 (js_mul (js_div (js_sub (num (finalInrAmountSkydo d)) (num (finalInrAmount d)))
                                                  (num (finalInrAmount d))) (Fin 100)))"
  using assms
  by (auto simp add: transformedData_def Let_def bind_eq_Some_conv)

lemma transformedData_costs:
  assumes "transformedData d = Some t"
  shows "effectiveCost (currentProvider t) =
           Number_of (toFixed 2 (js_mul (js_div (js_sub (num (inrAmount d)) (num (finalInrAmount d)))
                                                  (num (inrAmount d))) (Fin 100)))"
    and "paymentAmount (skydo t) = Number_of (toFixed 2 (js_mul (num (amount d)) (num (fxRateSkydo d))))"
    and "effectiveCost (skydo t) =
           Number_of (toFixed 2 (js_mul (js_div (js_sub (js_mul (num (amount d)) (num (fxRateSkydo d)))
                                                          (num (finalInrAmountSkydo d)))
                                                  (js_mul (num (amount d)) (num (fxRateSkydo d)))) (Fin 100)))"
  using assms
  by (auto simp add: transformedData_def Let_def bind_eq_Some_conv)

lemma example_data_defined: "\<exists>t. transformedData example_data = Some t"
  by (rule transformedData_defined [where d = example_data]) (simp_all add: example_data_def)

lemma fraction_data_defined: "\<exists>t. transformedData fraction_data = Some t"
  by (rule transformedData_defined [where d = fraction_data])
     (simp_all add: fraction_data_def example_data_def)

lemma zero_data_defined: "\<exists>t. transformedData zero_data = Some t"
  by (rule transformedData_defined [where d = zero_data])
     (simp_all add: zero_data_def example_data_def)

lemma transformedData_currency:
  assumes "transformedData d = Some t"
  shows "record_currency t = currency d"
  using assms
  by (auto simp add: transformedData_def Let_def bind_eq_Some_conv)

text \<open>
  The record is stored exactly for a response that says \<open>success\<close>, carries data, and
  whose computation does not throw: these are the successful extraction payloads.
\<close>

lemma handle_try_Inr_iff:
  "handle_try awaited = Inr t \<longleftrightarrow>
     (\<exists>result d. awaited = Inr result \<and> success result \<and> firaData result = Some d \<and>
                 transformedData d = Some t)"
  by (auto simp add: handle_try_def split: sum.splits option.splits if_splits)

lemma handleFileUpload_resume_success:
  assumes "handle_try awaited = Inr t"
  shows "handleFileUpload_resume awaited s =
           s\<lparr>analysisData := Some t,
             toasts := toasts s @
               [\<lparr>title = ''Analysis Complete'',
                 description = ''Your FIRA document has been successfully analyzed.'',
                 destructive = False\<rparr>],
             isAnalyzing := False\<rparr>"
  using assms by (simp add: handleFileUpload_resume_def)

section \<open>The claims about the comparison record\<close>

text \<open>
  C1 (as amended). For every payload from which the comparison record is computed, the
  \<open>totalOnTransaction\<close> of each provider is the two-decimal rounding of the sum of its
  three fee values as received, not of the three rounded charges; the three charges shown
  beside it are each rounded on their own.
\<close>

theorem totalOnTransaction_rounds_sum_of_unrounded_fees:
  assumes "transformedData d = Some t"
  shows "totalOnTransaction (currentProvider t) =
           Number_of (toFixed 2 (js_add (js_add (num (platformWireFee d)) (num (platformFiraFee d)))
                                        (num (platformTransactionFee d)))) \<and>
         totalOnTransaction (skydo t) =
           Number_of (toFixed 2 (js_add (js_add (num (skydoWireFee d)) (num (skydoFiraFee d)))
                                        (num (transactionSkydoFee d)))) \<and>
         map charge_amount (tl (charges (currentProvider t))) =
           [Number_of (toFixed 2 (num (platformWireFee d))),
            Number_of (toFixed 2 (num (platformFiraFee d))),
            Number_of (toFixed 2 (num (platformTransactionFee d)))] \<and>
         map charge_amount (tl (charges (skydo t))) =
           [Number_of (toFixed 2 (num (skydoWireFee d))),
            Number_of (toFixed 2 (num (skydoFiraFee d))),
            Number_of (toFixed 2 (num (transactionSkydoFee d)))]"
  using transformedData_totals [OF assms] transformedData_charges [OF assms]
  by (simp add: map_tl)

theorem totalOnTransaction_rounds_sum_of_unrounded_fees_witness:
  "\<exists>t. transformedData example_data = Some t \<and>
       totalOnTransaction (currentProvider t) = Fin 800 \<and>
       totalOnTransaction (skydo t) = Fin 800"
proof -
  obtain t where t: "transformedData example_data = Some t"
    using example_data_defined by blast
  show ?thesis
    using totalOnTransaction_rounds_sum_of_unrounded_fees [OF t] t
    by (simp add: example_data_def total_example)
qed

text \<open>
  C1 as stated fails: with three fees of 0.00390625 the code shows the total 0.01, while
  the rounded sum of the three rounded charges is 0.
\<close>

theorem totalOnTransaction_counterexample:
  "map_option (totalOnTransaction \<circ> currentProvider) (transformedData fraction_data)
     = Some (literal (1 / 100)) \<and>
   spec_totalOnTransaction (num (platformWireFee fraction_data)) (num (platformFiraFee fraction_data))
     (num (platformTransactionFee fraction_data)) = Fin 0 \<and>
   literal (1 / 100) \<noteq> Fin 0"
proof -
  obtain t where t: "transformedData fraction_data = Some t"
    using fraction_data_defined by blast
  have "totalOnTransaction (currentProvider t) = literal (1 / 100)"
    using transformedData_totals(1) [OF t]
    by (simp add: fraction_data_def example_data_def total_fraction)
  then show ?thesis
    using t by (simp add: fraction_data_def example_data_def spec_total_fraction literal_def fl_1_100)
qed


text \<open>
  C2 (as amended). For the example input (amount 1000, currency USD, inrAmount 83000,
  fxRateSkydo 84.5, calculatedExchangeRate 83.0, platform fees 500, 200 and 100,
  finalInrAmount 82200, finalInrAmountSkydo 83700, and any fees of the alternative
  provider) the record is computed and has current-provider total 800 and effective cost
  0.96, alternative payment amount 84500 and effective cost 0.95, savings amount 1500 and
  savings percentage 1.82.
\<close>

theorem example_scenario:
  assumes "amount d = Some (Fin 1000)" "currency d = Some ''USD''"
    "inrAmount d = Some (Fin 83000)" "fxRateSkydo d = Some (Fin (169 / 2))"
    "calculatedExchangeRate d = Some (Fin 83)"
    "platformWireFee d = Some (Fin 500)" "platformFiraFee d = Some (Fin 200)"
    "platformTransactionFee d = Some (Fin 100)"
    "finalInrAmount d = Some (Fin 82200)" "finalInrAmountSkydo d = Some (Fin 83700)"
    "skydoWireFee d = Some sw" "skydoFiraFee d = Some sf" "transactionSkydoFee d = Some st"
  shows "\<exists>t. transformedData d = Some t \<and>
             totalOnTransaction (currentProvider t) = Fin 800 \<and>
             effectiveCost (currentProvider t) = literal (96 / 100) \<and>
             paymentAmount (skydo t) = Fin 84500 \<and>
             effectiveCost (skydo t) = literal (95 / 100) \<and>
             savings_amount (savings t) = Fin 1500 \<and>
             savings_percentage (savings t) = literal (182 / 100) \<and>
             record_currency t = Some ''USD''"
proof -
  obtain t where t: "transformedData d = Some t"
    using transformedData_defined [OF assms(1,3,4,5,6,7,8,11,12,13)] by blast
  have "totalOnTransaction (currentProvider t) = Fin 800"
    using transformedData_totals(1) [OF t] assms by (simp add: total_example)
  moreover have "effectiveCost (currentProvider t) = literal (96 / 100)"
    using transformedData_costs(1) [OF t] assms by (simp add: cost_current)
  moreover have "paymentAmount (skydo t) = Fin 84500"
    using transformedData_costs(2) [OF t] assms by (simp add: payment_skydo floor_rat_numeral fl_84500)
  moreover have "effectiveCost (skydo t) = literal (95 / 100)"
    using transformedData_costs(3) [OF t] assms by (simp add: payment_skydo cost_skydo)
  moreover have "savings_amount (savings t) = Fin 1500"
    using transformedData_savings(1) [OF t] assms by (simp add: savings_example)
  moreover have "savings_percentage (savings t) = literal (182 / 100)"
    using transformedData_savings(2) [OF t] assms by (simp add: percentage_example)
  moreover have "record_currency t = Some ''USD''"
    using transformedData_currency [OF t] assms by simp
  ultimately show ?thesis using t by blast
qed

theorem example_scenario_witness:
  "\<exists>t. transformedData example_data = Some t \<and>
       totalOnTransaction (currentProvider t) = Fin 800 \<and>
       effectiveCost (currentProvider t) = literal (96 / 100) \<and>
       paymentAmount (skydo t) = Fin 84500 \<and>
       effectiveCost (skydo t) = literal (95 / 100) \<and>
       savings_amount (savings t) = Fin 1500 \<and>
       savings_percentage (savings t) = literal (182 / 100) \<and>
       record_currency t = Some ''USD''"
  by (rule example_scenario [where d = example_data]) (simp_all add: example_data_def)

text \<open>
  C2 as stated fails in its last figure: \<open>1500 / 82200 * 100 = 1.8248...\<close>, so the code
  shows the savings percentage 1.82, not 1.83.
\<close>

theorem example_scenario_counterexample:
  "map_option (savings_percentage \<circ> savings) (transformedData example_data)
     = Some (literal (182 / 100)) \<and>
   literal (182 / 100) \<noteq> literal (183 / 100)"
proof -
  obtain t where t: "transformedData example_data = Some t"
    using example_data_defined by blast
  have "savings_percentage (savings t) = literal (182 / 100)"
    using transformedData_savings(2) [OF t] by (simp add: example_data_def percentage_example)
  then show ?thesis
    using t literal_182_183 by simp
qed

text \<open>
  C3 (as amended). For every payload from which the record is computed,
  \<open>Savings.amount\<close> is \<open>finalInrAmountSkydo - finalInrAmount\<close> rounded to two
  decimals, and \<open>Savings.percentage\<close> is the difference as computed, not the rounded
  amount, divided by \<open>finalInrAmount\<close>, times 100, rounded to two decimals.
\<close>

theorem savings_percentage_from_unrounded_difference:
  assumes "transformedData d = Some t"
  shows "savings_amount (savings t) =
           Number_of (toFixed 2 (js_sub (num (finalInrAmountSkydo d)) (num (finalInrAmount d)))) \<and>
         savings_percentage (savings t) =
           Number_of (toFixed 2 (js_mul (js_div (js_sub (num (finalInrAmountSkydo d)) (num (finalInrAmount d)))
                                                  (num (finalInrAmount d))) (Fin 100)))"
  using transformedData_savings [OF assms] by simp

theorem savings_percentage_from_unrounded_difference_witness:
  "\<exists>t. transformedData fraction_data = Some t \<and>
       savings_amount (savings t) = Fin 0 \<and>
       savings_percentage (savings t) = literal (39 / 100)"
proof -
  obtain t where t: "transformedData fraction_data = Some t"
    using fraction_data_defined by blast
  show ?thesis
    using savings_percentage_from_unrounded_difference [OF t] t
    by (simp add: fraction_data_def example_data_def savings_fraction percentage_fraction)
qed

text \<open>
  C3 as stated fails: with final amounts 1 and 1.00390625 the rounded amount is 0, and the
  percentage of the rounded amount would be 0, yet the code shows 0.39.
\<close>

theorem savings_percentage_counterexample:
  "\<not> is_zero (num (finalInrAmount fraction_data)) \<and>
   map_option (savings_percentage \<circ> savings) (transformedData fraction_data)
     = Some (literal (39 / 100)) \<and>
   spec_savings_percentage (num (finalInrAmountSkydo fraction_data)) (num (finalInrAmount fraction_data))
     = Fin 0 \<and>
   literal (39 / 100) \<noteq> Fin 0"
proof -
  obtain t where t: "transformedData fraction_data = Some t"
    using fraction_data_defined by blast
  have "savings_percentage (savings t) = literal (39 / 100)"
    using transformedData_savings(2) [OF t]
    by (simp add: fraction_data_def example_data_def percentage_fraction)
  then show ?thesis
    using t
    by (simp add: fraction_data_def example_data_def spec_percentage_fraction literal_def fl_39_100)
qed

lemma swapped_data_defined: "\<exists>t. transformedData swapped_data = Some t"
  by (rule transformedData_defined [where d = swapped_data])
     (simp_all add: swapped_data_def example_data_def)

lemma equal_data_defined: "\<exists>t. transformedData equal_data = Some t"
  by (rule transformedData_defined [where d = equal_data])
     (simp_all add: equal_data_def example_data_def)

lemma round2_zero: "Number_of (toFixed 2 (Fin 0)) = Fin 0" "Number_of (toFixed 2 NegZero) = Fin 0"
  by (simp_all add: zero_s_def)

text \<open>
  C5 (as amended). For every payload with finite final amounts from which the record is
  computed: if \<open>finalInrAmountSkydo > finalInrAmount\<close> then \<open>Savings.amount >= 0\<close>, and
  \<open>> 0\<close> once the difference is at least 0.01; if it is less then \<open>Savings.amount <= 0\<close>,
  and \<open>< 0\<close> once the difference is at least 0.01; if they are equal then
  \<open>Savings.amount == 0\<close>. The sign is never inverted and negative amounts are kept.
\<close>

theorem savings_amount_sign:
  assumes "transformedData d = Some t"
    and "finalInrAmountSkydo d = Some fs" "finalInrAmount d = Some f"
    and "js_finite fs" "js_finite f"
  shows "(js_lt f fs \<longrightarrow> js_le (Fin 0) (savings_amount (savings t))) \<and>
         (js_lt fs f \<longrightarrow> js_le (savings_amount (savings t)) (Fin 0)) \<and>
         (js_eq fs f \<longrightarrow> js_eq (savings_amount (savings t)) (Fin 0)) \<and>
         (1 / 100 \<le> rat_of fs - rat_of f \<longrightarrow> js_lt (Fin 0) (savings_amount (savings t))) \<and>
         (1 / 100 \<le> rat_of f - rat_of fs \<longrightarrow> js_lt (savings_amount (savings t)) (Fin 0))"
proof -
  define diff where "diff = rat_of fs - rat_of f"
  have amount: "savings_amount (savings t) = Number_of (toFixed 2 (js_sub fs f))"
    using transformedData_savings(1) [OF assms(1)] assms(2,3) by simp
  have sub: "js_sub fs f = (if fs = NegZero \<and> f = Fin 0 then NegZero else fl diff)"
    unfolding diff_def using assms(4,5) by (rule js_sub_finite)
  have lt: "js_lt f fs \<longleftrightarrow> 0 < diff"
    using js_lt_finite [OF assms(5,4)] by (simp add: diff_def)
  have gt: "js_lt fs f \<longleftrightarrow> diff < 0"
    using js_lt_finite [OF assms(4,5)] by (simp add: diff_def)
  have eq: "js_eq fs f \<longleftrightarrow> diff = 0"
    using js_eq_finite [OF assms(4,5)] by (simp add: diff_def)
  have nz: "js_sub fs f = fl diff" if "diff \<noteq> 0"
    using that sub by (auto simp add: diff_def)
  have 1: "js_le (Fin 0) (savings_amount (savings t))" if "js_lt f fs"
  proof -
    have "0 < diff" using that lt by simp
    then have "js_le (Fin 0) (js_sub fs f)" using nz fl_nonneg [of diff] by simp
    then show ?thesis unfolding amount by (rule round2_nonneg)
  qed
  have 2: "js_le (savings_amount (savings t)) (Fin 0)" if "js_lt fs f"
  proof -
    have "diff < 0" using that gt by simp
    then have "js_le (js_sub fs f) (Fin 0)" using nz fl_nonpos [of diff] by simp
    then show ?thesis unfolding amount by (rule round2_nonpos)
  qed
  have 3: "js_eq (savings_amount (savings t)) (Fin 0)" if "js_eq fs f"
  proof -
    have "diff = 0" using that eq by simp
    then have "js_sub fs f = NegZero \<or> js_sub fs f = Fin 0"
      using sub by (simp add: fl_def)
    then show ?thesis unfolding amount using round2_zero by auto
  qed
  have 4: "js_lt (Fin 0) (savings_amount (savings t))" if "1 / 100 \<le> diff"
  proof -
    have "js_sub fs f = fl diff" using that nz by simp
    moreover have "fl diff = PosInf \<or> (\<exists>v. fl diff = Fin v \<and> 1 / 200 \<le> v)"
      using fl_pos [OF that] that by fastforce
    ultimately show ?thesis unfolding amount by (intro round2_pos) simp
  qed
  have 5: "js_lt (savings_amount (savings t)) (Fin 0)" if "1 / 100 \<le> - diff"
  proof -
    have "js_sub fs f = fl (- (- diff))" using that nz by simp
    moreover have "fl (- (- diff)) = NegInf \<or> (\<exists>v. fl (- (- diff)) = Fin (- v) \<and> 1 / 200 \<le> v)"
      using fl_neg [OF that] that by fastforce
    ultimately show ?thesis unfolding amount by (intro round2_neg) simp
  qed
  show ?thesis
    using 1 2 3 4 5 by (simp add: diff_def)
qed

theorem savings_amount_sign_witness:
  "(\<exists>t. transformedData example_data = Some t \<and> js_lt (Fin 82200) (Fin 83700) \<and>
        js_le (Fin 0) (savings_amount (savings t)) \<and> js_lt (Fin 0) (savings_amount (savings t))) \<and>
   (\<exists>t. transformedData swapped_data = Some t \<and> js_lt (Fin 82200) (Fin 83700) \<and>
        js_le (savings_amount (savings t)) (Fin 0) \<and> js_lt (savings_amount (savings t)) (Fin 0)) \<and>
   (\<exists>t. transformedData equal_data = Some t \<and> js_eq (Fin 82200) (Fin 82200) \<and>
        js_eq (savings_amount (savings t)) (Fin 0))"
proof -
  obtain t1 where t1: "transformedData example_data = Some t1"
    using example_data_defined by blast
  obtain t2 where t2: "transformedData swapped_data = Some t2"
    using swapped_data_defined by blast
  obtain t3 where t3: "transformedData equal_data = Some t3"
    using equal_data_defined by blast
  have "js_le (Fin 0) (savings_amount (savings t1)) \<and> js_lt (Fin 0) (savings_amount (savings t1))"
    using savings_amount_sign [OF t1, of "Fin 83700" "Fin 82200"]
    by (simp add: example_data_def js_finite_def)
  moreover have "js_le (savings_amount (savings t2)) (Fin 0) \<and> js_lt (savings_amount (savings t2)) (Fin 0)"
    using savings_amount_sign [OF t2, of "Fin 82200" "Fin 83700"]
    by (simp add: swapped_data_def example_data_def js_finite_def)
  moreover have "js_eq (savings_amount (savings t3)) (Fin 0)"
    using savings_amount_sign [OF t3, of "Fin 82200" "Fin 82200"]
    by (simp add: equal_data_def example_data_def js_finite_def)
  ultimately show ?thesis
    using t1 t2 t3 by simp
qed

text \<open>
  C5 as stated fails: with final amounts 1 and 1.00390625 the alternative provider's
  amount is the larger one, yet the savings amount is 0.00, which is not \<open>> 0\<close>.
\<close>

theorem savings_amount_sign_counterexample:
  "js_lt (num (finalInrAmount fraction_data)) (num (finalInrAmountSkydo fraction_data)) \<and>
   map_option (savings_amount \<circ> savings) (transformedData fraction_data) = Some (Fin 0) \<and>
   \<not> js_lt (Fin 0) (Fin 0)"
proof -
  obtain t where t: "transformedData fraction_data = Some t"
    using fraction_data_defined by blast
  have "savings_amount (savings t) = Fin 0"
    using transformedData_savings(1) [OF t]
    by (simp add: fraction_data_def example_data_def savings_fraction)
  then show ?thesis
    using t by (simp add: fraction_data_def example_data_def)
qed

section \<open>The claims about validation and failures\<close>

lemma string_of_nat_200: "string_of_nat 200 = ''200''"
  by (simp add: string_of_nat.simps digit_char_def)

lemma string_of_nat_500: "string_of_nat 500 = ''500''"
  by (simp add: string_of_nat.simps digit_char_def)

lemma missingFields_empty_iff:
  "missingFields d = [] \<longleftrightarrow>
     amount d \<noteq> None \<and> currency d \<noteq> None \<and> inrAmount d \<noteq> None \<and> fxRateSkydo d \<noteq> None \<and>
     calculatedExchangeRate d \<noteq> None \<and> finalInrAmount d \<noteq> None \<and> finalInrAmountSkydo d \<noteq> None"
  by (simp add: missingFields_def requiredFields_def field_defined_def)

text \<open>
  C4 (as amended). A success payload is refused by \<open>uploadAndProcessFira\<close>, before the
  comparison is computed, exactly when \<open>firaData\<close> is absent or one of the seven required
  properties (amount, currency, inrAmount, fxRateSkydo, calculatedExchangeRate,
  finalInrAmount, finalInrAmountSkydo) is absent; the error names the absent properties.
  Every other success payload is passed on unchanged, whatever the values of its numbers.
\<close>

theorem upload_validation_checks_presence_only:
  assumes "JSON_parse responseText = Parsed result" "success result"
  shows "uploadAndProcessFira JSON_parse (Response True status responseText) =
           (case firaData result of
              None \<Rightarrow> Inl (Error ''Failed to upload FIRA file: Server returned success but no data'')
            | Some d \<Rightarrow>
                if amount d \<noteq> None \<and> currency d \<noteq> None \<and> inrAmount d \<noteq> None \<and>
                   fxRateSkydo d \<noteq> None \<and> calculatedExchangeRate d \<noteq> None \<and>
                   finalInrAmount d \<noteq> None \<and> finalInrAmountSkydo d \<noteq> None
                then Inr result
                else Inl (Error (''Failed to upload FIRA file: Server response missing required fields: '' @
                                 join '', '' (missingFields d))))"
proof (cases "firaData result")
  case None
  then show ?thesis
    using assms by (simp add: uploadAndProcessFira_def upload_try_def)
next
  case (Some d)
  show ?thesis
  proof (cases "missingFields d = []")
    case True
    then show ?thesis
      using assms Some missingFields_empty_iff [of d]
      by (simp add: uploadAndProcessFira_def upload_try_def)
  next
    case False
    then show ?thesis
      using assms Some missingFields_empty_iff [of d]
      by (simp add: uploadAndProcessFira_def upload_try_def)
  qed
qed

theorem upload_validation_checks_presence_only_witness:
  "uploadAndProcessFira (parse_as (success_result example_data)) (Response True 200 ''{}'')
     = Inr (success_result example_data) \<and>
   uploadAndProcessFira (parse_as (success_result missing_data)) (Response True 200 ''{}'')
     = Inl (Error (''Failed to upload FIRA file: Server response missing required fields: '' @
                   ''inrAmount, finalInrAmount''))"
proof -
  have "missingFields missing_data = [''inrAmount'', ''finalInrAmount'']"
    by (simp add: missingFields_def requiredFields_def field_defined_def missing_data_def
        example_data_def)
  then show ?thesis
    using upload_validation_checks_presence_only
            [of "parse_as (success_result example_data)" "''{}''" "success_result example_data" 200]
          upload_validation_checks_presence_only
            [of "parse_as (success_result missing_data)" "''{}''" "success_result missing_data" 200]
    by (simp add: parse_as_def success_result_def example_data_def missing_data_def)
qed

text \<open>
  C4 as stated fails: the example payload with \<open>inrAmount = 0\<close> passes the validation,
  the comparison is computed, and the stored record holds the effective cost \<open>-Infinity\<close>.
\<close>

theorem zero_amount_counterexample:
  "uploadAndProcessFira (parse_as (success_result zero_data)) (Response True 200 ''{}'')
     = Inr (success_result zero_data) \<and>
   map_option (effectiveCost \<circ> currentProvider)
     (analysisData (handleFileUpload_resume
        (uploadAndProcessFira (parse_as (success_result zero_data)) (Response True 200 ''{}''))
        Index_initial))
     = Some NegInf"
proof -
  obtain t where t: "transformedData zero_data = Some t"
    using zero_data_defined by blast
  have up: "uploadAndProcessFira (parse_as (success_result zero_data)) (Response True 200 ''{}'')
              = Inr (success_result zero_data)"
    by (simp add: uploadAndProcessFira_def upload_try_def parse_as_def success_result_def
        missingFields_empty_iff zero_data_def example_data_def)
  have "effectiveCost (currentProvider t) = NegInf"
    using transformedData_costs(1) [OF t] by (simp add: zero_data_def example_data_def cost_zero)
  then show ?thesis
    unfolding up using t
    by (simp add: handleFileUpload_resume_def handle_try_def success_result_def)
qed

lemma join_empty_iff: "join sep es = [] \<longleftrightarrow> es = [] \<or> es = ['''']" if "sep \<noteq> []"
  using that by (induction sep es rule: join.induct) auto

text \<open>The call either rethrows an \<open>Error\<close> with a prefixed message or returns what was parsed.\<close>

lemma uploadAndProcessFira_Inl:
  assumes "uploadAndProcessFira JSON_parse outcome = Inl e"
  shows "\<exists>m. e = Error (''Failed to upload FIRA file: '' @ m)"
  using assms by (auto simp add: uploadAndProcessFira_def split: sum.splits)

lemma uploadAndProcessFira_Inr:
  assumes "uploadAndProcessFira JSON_parse outcome = Inr result"
  shows "\<exists>status responseText.
           outcome = Response True status responseText \<and> JSON_parse responseText = Parsed result"
  using assms
  by (auto simp add: uploadAndProcessFira_def upload_try_def
      split: sum.splits fetch_outcome.splits parsed.splits option.splits if_splits)

lemma errorMessage_cases:
  "errorMessage result =
     (case errors result of
        Some (e # es) \<Rightarrow> join '', '' (e # es)
      | _ \<Rightarrow> (case message result of
                Some (c # m) \<Rightarrow> c # m
              | _ \<Rightarrow> ''Failed to process FIRA document''))"
  by (simp add: errorMessage_def Let_def split: option.splits list.splits)

lemma errorMessage_empty:
  assumes "errorMessage result = []"
  shows "errors result = Some ['''']"
  using assms join_empty_iff [of "'', ''"]
  by (auto simp add: errorMessage_cases split: option.splits list.splits)

text \<open>
  C8 (as amended). For every response with \<open>success: false\<close> the page shows the
  destructive toast "Processing Failed", leaves the stored record alone and ends the
  analysis; its message is the errors joined by ", " when the errors list is non-empty,
  otherwise the \<open>message\<close> field when that is non-empty, otherwise "Failed to process
  FIRA document". On every failure path of a submission, whatever the network delivers
  and however it parses, the toast carries the message of the error, and that message is
  non-empty unless the response says \<open>success: false\<close> and its errors list is the single
  empty string.
\<close>

theorem application_failure_message:
  "(JSON_parse responseText = Parsed result \<longrightarrow> \<not> success result \<longrightarrow>
      handleFileUpload_resume (uploadAndProcessFira JSON_parse (Response True status responseText)) s =
        s\<lparr>toasts := toasts s @
             [\<lparr>title = ''Processing Failed'', description = errorMessage result,
               destructive = True\<rparr>],
          isAnalyzing := False\<rparr> \<and>
      errorMessage result =
        (case errors result of
           Some (e # es) \<Rightarrow> join '', '' (e # es)
         | _ \<Rightarrow> (case message result of
                   Some (c # m) \<Rightarrow> c # m
                 | _ \<Rightarrow> ''Failed to process FIRA document'')) \<and>
      (errors result \<noteq> Some [''''] \<longrightarrow> errorMessage result \<noteq> [])) \<and>
   (handle_try (uploadAndProcessFira JSON_parse outcome) = Inl thrown \<longrightarrow>
      (\<exists>m. thrown = Error m \<and>
           toasts (handleFileUpload_resume (uploadAndProcessFira JSON_parse outcome) s) =
             toasts s @ [\<lparr>title = ''Processing Failed'', description = m, destructive = True\<rparr>] \<and>
           (m = [] \<longrightarrow>
              (\<exists>code body r. outcome = Response True code body \<and> JSON_parse body = Parsed r \<and>
                             \<not> success r \<and> errors r = Some ['''']))))"
proof -
  have first: "handleFileUpload_resume (uploadAndProcessFira JSON_parse (Response True status responseText)) s =
        s\<lparr>toasts := toasts s @
             [\<lparr>title = ''Processing Failed'', description = errorMessage result,
               destructive = True\<rparr>],
          isAnalyzing := False\<rparr>"
    if "JSON_parse responseText = Parsed result" "\<not> success result"
  proof -
    have 1: "uploadAndProcessFira JSON_parse (Response True status responseText) = Inr result"
      using that by (simp add: uploadAndProcessFira_def upload_try_def)
    have 2: "handle_try (Inr result) = Inl (Error (errorMessage result))"
      using that(2) by (simp add: handle_try_def)
    show ?thesis
      by (simp add: 1 2 handleFileUpload_resume_def)
  qed
  have nonempty: "errorMessage result \<noteq> []" if "errors result \<noteq> Some ['''']"
    using that errorMessage_empty by blast
  have every: "\<exists>m. thrown = Error m \<and>
           toasts (handleFileUpload_resume (uploadAndProcessFira JSON_parse outcome) s) =
             toasts s @ [\<lparr>title = ''Processing Failed'', description = m, destructive = True\<rparr>] \<and>
           (m = [] \<longrightarrow>
              (\<exists>code body r. outcome = Response True code body \<and> JSON_parse body = Parsed r \<and>
                             \<not> success r \<and> errors r = Some ['''']))"
    if failed: "handle_try (uploadAndProcessFira JSON_parse outcome) = Inl thrown"
  proof (cases "uploadAndProcessFira JSON_parse outcome")
    case (Inl e)
    then obtain m where e: "e = Error (''Failed to upload FIRA file: '' @ m)"
      using uploadAndProcessFira_Inl by blast
    have "thrown = e" using failed Inl by (simp add: handle_try_def)
    then show ?thesis
      using Inl e by (simp add: handleFileUpload_resume_def handle_try_def)
  next
    case (Inr r)
    then obtain code body where
      outcome: "outcome = Response True code body" "JSON_parse body = Parsed r"
      using uploadAndProcessFira_Inr by blast
    show ?thesis
    proof (cases "success r")
      case False
      then have t: "thrown = Error (errorMessage r)"
        using failed Inr by (simp add: handle_try_def)
      have "errors r = Some ['''']" if "errorMessage r = []"
        using that by (rule errorMessage_empty)
      then show ?thesis
        using t Inr False outcome
        by (auto simp add: handleFileUpload_resume_def handle_try_def)
    next
      case True
      then have "thrown = Error ''No data received from server'' \<or> thrown = Error undefined_toFixed"
        using failed Inr by (auto simp add: handle_try_def split: option.splits)
      then show ?thesis
        using failed Inr
        by (auto simp add: handleFileUpload_resume_def undefined_toFixed_def)
    qed
  qed
  show ?thesis
    using first nonempty every errorMessage_cases [of result] by blast
qed

theorem application_failure_message_witness:
  "handleFileUpload_resume
     (uploadAndProcessFira (parse_as unreadable_result) (Response True 200 ''{}'')) Index_initial =
     Index_initial\<lparr>toasts :=
       [\<lparr>title = ''Processing Failed'', description = ''Unable to read document'',
         destructive = True\<rparr>]\<rparr> \<and>
   handle_try (uploadAndProcessFira (parse_as unreadable_result)
       (Response False 500 ''Internal Server Error'')) =
     Inl (Error ''Failed to upload FIRA file: HTTP error! status: 500, message: Internal Server Error'') \<and>
   map description (toasts (handleFileUpload_resume
       (uploadAndProcessFira (parse_as unreadable_result) (Response False 500 ''Internal Server Error''))
       Index_initial)) =
     [''Failed to upload FIRA file: HTTP error! status: 500, message: Internal Server Error'']"
proof -
  have up: "handle_try (uploadAndProcessFira (parse_as unreadable_result)
       (Response False 500 ''Internal Server Error'')) =
     Inl (Error ''Failed to upload FIRA file: HTTP error! status: 500, message: Internal Server Error'')"
    by (simp add: handle_try_def uploadAndProcessFira_def upload_try_def string_of_nat_500)
  have "handleFileUpload_resume
     (uploadAndProcessFira (parse_as unreadable_result) (Response True 200 ''{}'')) Index_initial =
     Index_initial\<lparr>toasts :=
       [\<lparr>title = ''Processing Failed'', description = ''Unable to read document'',
         destructive = True\<rparr>]\<rparr>"
    using application_failure_message
      [of "parse_as unreadable_result" "''{}''" unreadable_result 200 Index_initial]
    by (simp add: parse_as_def unreadable_result_def Index_initial_def)
  moreover have "map description (toasts (handleFileUpload_resume
       (uploadAndProcessFira (parse_as unreadable_result) (Response False 500 ''Internal Server Error''))
       Index_initial)) =
     [''Failed to upload FIRA file: HTTP error! status: 500, message: Internal Server Error'']"
    using application_failure_message
      [of "parse_as unreadable_result" _ _ _ Index_initial
          "Response False 500 ''Internal Server Error''"
          "Error ''Failed to upload FIRA file: HTTP error! status: 500, message: Internal Server Error''"]
      up
    by (auto simp add: Index_initial_def)
  ultimately show ?thesis
    using up by simp
qed

text \<open>
  C8 as stated fails in its last part: a failure response whose errors list is the single
  empty string is shown with an empty message.
\<close>

theorem empty_message_counterexample:
  "map description (toasts (handleFileUpload_resume
     (uploadAndProcessFira (parse_as empty_error_result) (Response True 200 ''{}'')) Index_initial))
   = ['''']"
  by (simp add: uploadAndProcessFira_def upload_try_def parse_as_def empty_error_result_def
      handleFileUpload_resume_def handle_try_def errorMessage_def Index_initial_def)

text \<open>
  C10. On every failure path of a submission (the awaited call threw: transport, parse or
  validation error; the response says \<open>success: false\<close>; the data is missing; the
  computation threw) the stored comparison record is unchanged, the analysing flag is
  reset and one destructive toast is shown.
\<close>

theorem failed_upload_keeps_record:
  assumes "(\<exists>e. awaited = Inl e) \<or>
           (\<exists>result. awaited = Inr result \<and>
              (\<not> success result \<or> firaData result = None \<or>
               (\<exists>d. firaData result = Some d \<and> transformedData d = None)))"
  shows "analysisData (handleFileUpload_resume awaited s) = analysisData s \<and>
         isAnalyzing (handleFileUpload_resume awaited s) = False \<and>
         page_uploadedFile (handleFileUpload_resume awaited s) = page_uploadedFile s \<and>
         (\<exists>m. toasts (handleFileUpload_resume awaited s) =
                toasts s @ [\<lparr>title = ''Processing Failed'', description = m, destructive = True\<rparr>])"
proof -
  have "\<exists>e. handle_try awaited = Inl e"
    using assms by (auto simp add: handle_try_def)
  then show ?thesis
    by (auto simp add: handleFileUpload_resume_def)
qed

theorem failed_upload_keeps_record_witness:
  "analysisData (handleFileUpload_resume
      (uploadAndProcessFira (parse_as unreadable_result) (Response False 500 ''Internal Server Error''))
      (Index_initial\<lparr>isAnalyzing := True\<rparr>)) = None \<and>
   isAnalyzing (handleFileUpload_resume
      (uploadAndProcessFira (parse_as unreadable_result) (Response False 500 ''Internal Server Error''))
      (Index_initial\<lparr>isAnalyzing := True\<rparr>)) = False \<and>
   uploadAndProcessFira (parse_as unreadable_result) (Response False 500 ''Internal Server Error'') =
     Inl (Error ''Failed to upload FIRA file: HTTP error! status: 500, message: Internal Server Error'')"
proof -
  have up: "uploadAndProcessFira (parse_as unreadable_result) (Response False 500 ''Internal Server Error'') =
     Inl (Error ''Failed to upload FIRA file: HTTP error! status: 500, message: Internal Server Error'')"
    by (simp add: uploadAndProcessFira_def upload_try_def string_of_nat_500)
  show ?thesis
    using failed_upload_keeps_record
      [of "uploadAndProcessFira (parse_as unreadable_result) (Response False 500 ''Internal Server Error'')"
          "Index_initial\<lparr>isAnalyzing := True\<rparr>"]
    by (simp add: up Index_initial_def)
qed

section \<open>The claims about the upload form\<close>

lemma PaymentMethod_value_truthy: "truthy_string (PaymentMethod_value m)"
  by (cases m) (simp_all add: truthy_string_def)

text \<open>
  C6. \<open>canAnalyze\<close> holds exactly when a file is selected, a payment method is chosen and
  the terms are accepted; \<open>handleAnalyze\<close> calls \<open>onFileUpload\<close> exactly then.
\<close>

theorem canAnalyze_iff:
  "(canAnalyze s \<longleftrightarrow>
      (\<exists>file. uploadedFile s = Some file) \<and> (\<exists>m. paymentMethod s = Some m) \<and> acceptedTerms s) \<and>
   (handleAnalyze s \<noteq> None \<longleftrightarrow> canAnalyze s)"
proof (cases "paymentMethod s")
  case None
  then show ?thesis
    by (simp add: canAnalyze_def handleAnalyze_def paymentMethod_string_def truthy_string_def)
next
  case (Some m)
  then show ?thesis
    using PaymentMethod_value_truthy [of m]
    by (auto simp add: canAnalyze_def handleAnalyze_def paymentMethod_string_def truthy_object_def)
qed

theorem canAnalyze_iff_witness:
  "canAnalyze filled_form \<and> handleAnalyze filled_form = Some (pdf_file, BANK) \<and>
   \<not> canAnalyze FileUpload_initial \<and>
   \<not> canAnalyze (filled_form\<lparr>acceptedTerms := False\<rparr>) \<and>
   \<not> canAnalyze (filled_form\<lparr>paymentMethod := None\<rparr>) \<and>
   \<not> canAnalyze (filled_form\<lparr>uploadedFile := None\<rparr>)"
  using canAnalyze_iff [of filled_form] canAnalyze_iff [of FileUpload_initial]
    canAnalyze_iff [of "filled_form\<lparr>acceptedTerms := False\<rparr>"]
    canAnalyze_iff [of "filled_form\<lparr>paymentMethod := None\<rparr>"]
    canAnalyze_iff [of "filled_form\<lparr>uploadedFile := None\<rparr>"]
  by (simp add: filled_form_def FileUpload_initial_def handleAnalyze_def)



section \<open>The claim about submissions in flight\<close>

lemma page_render [simp]: "page (render a) = page a"
  by (simp add: render_def split: option.splits)

lemma inflight_render [simp]: "inflight (render a) = inflight a"
  by (simp add: render_def split: option.splits)

lemma form_render:
  "form (render a) = None \<longleftrightarrow> \<not> (analysisData (page a) = None \<and> \<not> isAnalyzing (page a))"
  by (simp add: render_def split: option.splits)

lemma run_snoc:
  "run createObjectURL JSON_parse (es @ [e]) =
     step createObjectURL JSON_parse (run createObjectURL JSON_parse es) e"
  by (simp add: run_def)

text \<open>The form is rendered exactly while there is no record and no analysis under way.\<close>

lemma form_run:
  "form (run createObjectURL JSON_parse es) = None \<longleftrightarrow>
     \<not> (analysisData (page (run createObjectURL JSON_parse es)) = None \<and>
        \<not> isAnalyzing (page (run createObjectURL JSON_parse es)))"
proof (cases es rule: rev_cases)
  case Nil
  then show ?thesis by (simp add: run_def App_initial_def form_render)
next
  case (snoc es' e)
  then show ?thesis by (simp add: run_snoc step_def form_render)
qed

lemma step_not_rendered:
  assumes "form a = None" "isAnalyzing (page a)"
  shows "step createObjectURL JSON_parse a ClickAnalyze = a"
  using assms by (simp add: step_def handle_def render_def)

text \<open>Without a click on the logo, a pending call means an analysis under way and no record.\<close>

lemma step_pending:
  assumes "e \<noteq> ClickLogo"
    and "form a = None \<longleftrightarrow> \<not> (analysisData (page a) = None \<and> \<not> isAnalyzing (page a))"
    and "inflight a \<noteq> [] \<longrightarrow>
           length (inflight a) = 1 \<and> isAnalyzing (page a) \<and> analysisData (page a) = None"
  shows "inflight (step createObjectURL JSON_parse a e) \<noteq> [] \<longrightarrow>
           length (inflight (step createObjectURL JSON_parse a e)) = 1 \<and>
           isAnalyzing (page (step createObjectURL JSON_parse a e)) \<and>
           analysisData (page (step createObjectURL JSON_parse a e)) = None"
proof (cases e)
  case (SelectFile f)
  then show ?thesis
    using assms(2,3) by (auto simp add: step_def handle_def split: option.splits prod.splits)
next
  case (SelectPaymentMethod m)
  then show ?thesis
    using assms(2,3) by (auto simp add: step_def handle_def split: option.splits)
next
  case (CheckTerms c)
  then show ?thesis
    using assms(2,3) by (auto simp add: step_def handle_def split: option.splits)
next
  case ClickAnalyze
  then show ?thesis
    using assms(2,3)
    by (auto simp add: step_def handle_def handleFileUpload_begin_def split: option.splits)
next
  case ClickLogo
  then show ?thesis using assms(1) by simp
next
  case ClickBackToHome
  then show ?thesis
    using assms(2,3) by (auto simp add: step_def handle_def handleBackToHome_def)
next
  case (Settle i outcome)
  then show ?thesis
    using assms(3) by (auto simp add: step_def handle_def)
qed

lemma run_pending:
  assumes "ClickLogo \<notin> set es"
  shows "inflight (run createObjectURL JSON_parse es) \<noteq> [] \<longrightarrow>
           length (inflight (run createObjectURL JSON_parse es)) = 1 \<and>
           isAnalyzing (page (run createObjectURL JSON_parse es)) \<and>
           analysisData (page (run createObjectURL JSON_parse es)) = None"
  using assms
proof (induction es rule: rev_induct)
  case Nil
  then show ?case by (simp add: run_def App_initial_def)
next
  case (snoc e es)
  then have "e \<noteq> ClickLogo" by auto
  moreover have "ClickLogo \<notin> set es" using snoc.prems by simp
  ultimately show ?case
    unfolding run_snoc using form_run snoc.IH by (intro step_pending) auto
qed

lemma form_step:
  "form (step createObjectURL JSON_parse a e) = None \<longleftrightarrow>
     \<not> (analysisData (page (step createObjectURL JSON_parse a e)) = None \<and>
        \<not> isAnalyzing (page (step createObjectURL JSON_parse a e)))"
  by (simp add: step_def form_render)

lemma step_logo_idle:
  assumes "inflight a = []"
  shows "inflight (step createObjectURL JSON_parse a ClickLogo) = []"
  using assms by (simp add: step_def handle_def)

text \<open>
  With the logo clicked only while no call is pending, a pending call still means an
  analysis under way and no record.
\<close>

lemma foldl_pending:
  assumes "logo_only_when_idle createObjectURL JSON_parse a es"
    and "form a = None \<longleftrightarrow> \<not> (analysisData (page a) = None \<and> \<not> isAnalyzing (page a))"
    and "inflight a \<noteq> [] \<longrightarrow>
           length (inflight a) = 1 \<and> isAnalyzing (page a) \<and> analysisData (page a) = None"
  shows "inflight (foldl (step createObjectURL JSON_parse) a es) \<noteq> [] \<longrightarrow>
           length (inflight (foldl (step createObjectURL JSON_parse) a es)) = 1 \<and>
           isAnalyzing (page (foldl (step createObjectURL JSON_parse) a es)) \<and>
           analysisData (page (foldl (step createObjectURL JSON_parse) a es)) = None"
  using assms
proof (induction es arbitrary: a)
  case Nil
  then show ?case by simp
next
  case (Cons e es)
  have idle: "logo_only_when_idle createObjectURL JSON_parse (step createObjectURL JSON_parse a e) es"
    using Cons.prems(1) by simp
  have pending: "inflight (step createObjectURL JSON_parse a e) \<noteq> [] \<longrightarrow>
           length (inflight (step createObjectURL JSON_parse a e)) = 1 \<and>
           isAnalyzing (page (step createObjectURL JSON_parse a e)) \<and>
           analysisData (page (step createObjectURL JSON_parse a e)) = None"
  proof (cases "e = ClickLogo")
    case True
    then have "inflight a = []" using Cons.prems(1) by simp
    then show ?thesis using True step_logo_idle by simp
  next
    case False
    then show ?thesis using Cons.prems(2,3) by (rule step_pending)
  qed
  show ?case
    using Cons.IH [OF idle form_step pending] by simp
qed

lemma logo_only_when_idle_without_logo:
  "ClickLogo \<notin> set es \<Longrightarrow> logo_only_when_idle createObjectURL JSON_parse a es"
  by (induction es arbitrary: a) (auto split: event.splits)

text \<open>
  C9 (as amended). In every state the page can reach, while the analysis is under way the
  upload form is not rendered and a click on its button changes nothing, so no second call
  is issued from that state. As long as the logo is not clicked while a call is pending,
  at most one call is pending; in particular when the logo is never clicked.
\<close>

theorem no_second_submit_while_analyzing:
  "(isAnalyzing (page (run createObjectURL JSON_parse es)) \<longrightarrow>
      form (run createObjectURL JSON_parse es) = None \<and>
      step createObjectURL JSON_parse (run createObjectURL JSON_parse es) ClickAnalyze =
        run createObjectURL JSON_parse es) \<and>
   (logo_only_when_idle createObjectURL JSON_parse App_initial es \<longrightarrow>
      length (inflight (run createObjectURL JSON_parse es)) \<le> 1) \<and>
   (ClickLogo \<notin> set es \<longrightarrow> length (inflight (run createObjectURL JSON_parse es)) \<le> 1)"
proof -
  have "form (run createObjectURL JSON_parse es) = None"
    if "isAnalyzing (page (run createObjectURL JSON_parse es))"
    using that form_run [of createObjectURL JSON_parse es] by simp
  moreover have idle: "length (inflight (run createObjectURL JSON_parse es)) \<le> 1"
    if "logo_only_when_idle createObjectURL JSON_parse App_initial es"
  proof -
    have "inflight (run createObjectURL JSON_parse es) \<noteq> [] \<longrightarrow>
            length (inflight (run createObjectURL JSON_parse es)) = 1 \<and>
            isAnalyzing (page (run createObjectURL JSON_parse es)) \<and>
            analysisData (page (run createObjectURL JSON_parse es)) = None"
      unfolding run_def using that
      by (rule foldl_pending) (simp_all add: App_initial_def form_render)
    then show ?thesis
      by (cases "inflight (run createObjectURL JSON_parse es) = []") simp_all
  qed
  moreover have "length (inflight (run createObjectURL JSON_parse es)) \<le> 1"
    if "ClickLogo \<notin> set es"
    using idle logo_only_when_idle_without_logo [OF that] by simp
  ultimately show ?thesis
    using step_not_rendered by blast
qed

lemma run_submit_events:
  "run blob_url (parse_as unreadable_result) submit_events =
     \<lparr>page = \<lparr>page_uploadedFile = Some pdf_file, analysisData = None, isAnalyzing = True, toasts = []\<rparr>,
      form = None, inflight = [(pdf_file, BANK)]\<rparr>"
  by (simp add: run_def submit_events_def step_def handle_def render_def App_initial_def
      handleFile_def handleAnalyze_def canAnalyze_def truthy_object_def truthy_string_def
      paymentMethod_string_def handleFileUpload_begin_def FileUpload_initial_def
      pdf_file_def validTypes_def startsWith_def Let_def)

lemma resubmit_events_idle:
  "logo_only_when_idle blob_url (parse_as unreadable_result) App_initial resubmit_events"
  by (simp add: resubmit_events_def submit_events_def step_def handle_def render_def App_initial_def
      handleFile_def handleAnalyze_def canAnalyze_def truthy_object_def truthy_string_def
      paymentMethod_string_def handleFileUpload_begin_def handleFileUpload_resume_def
      handle_try_def uploadAndProcessFira_def upload_try_def handleBackToHome_def
      FileUpload_initial_def pdf_file_def validTypes_def startsWith_def Let_def)

lemma run_resubmit_events:
  "isAnalyzing (page (run blob_url (parse_as unreadable_result) resubmit_events)) \<and>
   inflight (run blob_url (parse_as unreadable_result) resubmit_events) = [(pdf_file, BANK)]"
  by (simp add: run_def resubmit_events_def submit_events_def step_def handle_def render_def
      App_initial_def
      handleFile_def handleAnalyze_def canAnalyze_def truthy_object_def truthy_string_def
      paymentMethod_string_def handleFileUpload_begin_def handleFileUpload_resume_def
      handle_try_def uploadAndProcessFira_def upload_try_def handleBackToHome_def
      FileUpload_initial_def pdf_file_def validTypes_def startsWith_def Let_def)

theorem no_second_submit_while_analyzing_witness:
  "isAnalyzing (page (run blob_url (parse_as unreadable_result) submit_events)) \<and>
   form (run blob_url (parse_as unreadable_result) submit_events) = None \<and>
   step blob_url (parse_as unreadable_result)
     (run blob_url (parse_as unreadable_result) submit_events) ClickAnalyze =
     run blob_url (parse_as unreadable_result) submit_events \<and>
   ClickLogo \<notin> set submit_events \<and>
   length (inflight (run blob_url (parse_as unreadable_result) submit_events)) \<le> 1 \<and>
   ClickLogo \<in> set resubmit_events \<and>
   logo_only_when_idle blob_url (parse_as unreadable_result) App_initial resubmit_events \<and>
   isAnalyzing (page (run blob_url (parse_as unreadable_result) resubmit_events)) \<and>
   form (run blob_url (parse_as unreadable_result) resubmit_events) = None \<and>
   length (inflight (run blob_url (parse_as unreadable_result) resubmit_events)) \<le> 1"
proof -
  have "isAnalyzing (page (run blob_url (parse_as unreadable_result) submit_events))"
    by (simp add: run_submit_events)
  moreover have "ClickLogo \<notin> set submit_events"
    by (simp add: submit_events_def)
  moreover have "ClickLogo \<in> set resubmit_events"
    by (simp add: resubmit_events_def)
  moreover note resubmit_events_idle
  moreover have "isAnalyzing (page (run blob_url (parse_as unreadable_result) resubmit_events))"
    using run_resubmit_events by simp
  ultimately show ?thesis
    using no_second_submit_while_analyzing [of blob_url "parse_as unreadable_result" submit_events]
      no_second_submit_while_analyzing [of blob_url "parse_as unreadable_result" resubmit_events]
    by simp
qed

text \<open>
  C9 as stated fails: a click on the logo while the first call is pending brings the form
  back, and submitting it again issues a second call while the first is still pending.
\<close>

theorem two_pending_calls_counterexample:
  "inflight (run blob_url (parse_as unreadable_result) (submit_events @ ClickLogo # submit_events))
     = [(pdf_file, BANK), (pdf_file, BANK)]"
proof -
  have "run blob_url (parse_as unreadable_result) (submit_events @ ClickLogo # submit_events) =
        foldl (step blob_url (parse_as unreadable_result))
          (step blob_url (parse_as unreadable_result)
             (run blob_url (parse_as unreadable_result) submit_events) ClickLogo)
          submit_events"
    by (simp add: run_def)
  then show ?thesis
    unfolding run_submit_events
    by (simp add: submit_events_def step_def handle_def render_def
      handleFile_def handleAnalyze_def canAnalyze_def truthy_object_def truthy_string_def
      paymentMethod_string_def handleFileUpload_begin_def handleBackToHome_def FileUpload_initial_def
      pdf_file_def validTypes_def startsWith_def Let_def)
qed

end
